theory Spec2Isabelle
  imports Main
begin

section \<open>Python strings\<close>

text \<open>
  A Python \<^verbatim>\<open>str\<close> is a sequence of Unicode code points. It is modelled as a list
  of natural numbers, one per code point; \<open>py\<close> writes an ASCII literal.
\<close>

type_synonym pystr = "nat list"

abbreviation (input) py :: "string \<Rightarrow> pystr" where
  "py s \<equiv> map of_char s"

text \<open>
  \<^verbatim>\<open>str.isspace\<close> for one code point: the code points Python treats as whitespace
  (U+0009..U+000D, U+001C..U+0020, U+0085, U+00A0, U+1680, U+2000..U+200A, U+2028,
  U+2029, U+202F, U+205F, U+3000).
\<close>

definition isspace :: "nat \<Rightarrow> bool" where
  "isspace c \<longleftrightarrow>
     (9 \<le> c \<and> c \<le> 13) \<or> (28 \<le> c \<and> c \<le> 32) \<or> c = 133 \<or> c = 160 \<or> c = 5760 \<or>
     (8192 \<le> c \<and> c \<le> 8202) \<or> c = 8232 \<or> c = 8233 \<or> c = 8239 \<or> c = 8287 \<or> c = 12288"

definition lstrip :: "pystr \<Rightarrow> pystr" where
  "lstrip s = dropWhile isspace s"

definition rstrip :: "pystr \<Rightarrow> pystr" where
  "rstrip s = rev (dropWhile isspace (rev s))"

text \<open>\<^verbatim>\<open>s.strip()\<close>: leading and trailing whitespace removed.\<close>

definition strip :: "pystr \<Rightarrow> pystr" where
  "strip s = rstrip (lstrip s)"

text \<open>\<^verbatim>\<open>s.rstrip(chars)\<close>: trailing code points that occur in \<open>chars\<close> removed.\<close>

definition rstrip_chars :: "pystr \<Rightarrow> pystr \<Rightarrow> pystr" where
  "rstrip_chars s chars = rev (dropWhile (\<lambda>c. c \<in> set chars) (rev s))"

definition startswith :: "pystr \<Rightarrow> pystr \<Rightarrow> bool" where
  "startswith s p \<longleftrightarrow> take (length p) s = p"

text \<open>
  \<^verbatim>\<open>s.split(sep)\<close> for a separator of one code point: the pieces between the
  separators, the empty ones too; the empty string has the one piece \<open>[]\<close>.
\<close>

fun split :: "pystr \<Rightarrow> nat \<Rightarrow> pystr list" where
  "split [] sep = [[]]"
| "split (c # cs) sep =
     (if c = sep then [] # split cs sep
      else (case split cs sep of [] \<Rightarrow> [[c]] | p # ps \<Rightarrow> (c # p) # ps))"

text \<open>\<^verbatim>\<open>sep.join(xs)\<close>.\<close>

fun join :: "pystr \<Rightarrow> pystr list \<Rightarrow> pystr" where
  "join sep [] = []"
| "join sep [x] = x"
| "join sep (x # y # ys) = x @ sep @ join sep (y # ys)"

text \<open>\<^verbatim>\<open>x or d\<close> for an optional string: \<open>None\<close> and the empty string are falsy.\<close>

definition or_else :: "pystr option \<Rightarrow> pystr \<Rightarrow> pystr" where
  "or_else x d = (case x of None \<Rightarrow> d | Some s \<Rightarrow> if s = [] then d else s)"

section \<open>XML elements\<close>

text \<open>
  An element of the parsed response, as lxml and \<^verbatim>\<open>xml.etree\<close> present it: its
  qualified tag (namespace URI and local name; Clark notation \<^verbatim>\<open>{uri}local\<close> in the
  source), its attributes, its \<^verbatim>\<open>.text\<close> (\<open>None\<close> when the element has no text) and
  its child elements in document order.
\<close>

type_synonym qname = "pystr \<times> pystr"

datatype element =
  Element (tag: qname) (attrib: "(pystr \<times> pystr) list") (text_of: "pystr option")
    (children: "element list")

text \<open>\<^verbatim>\<open>el.findall("{uri}local")\<close>: the children with that tag, in document order.\<close>

definition findall :: "element \<Rightarrow> qname \<Rightarrow> element list" where
  "findall el q = filter (\<lambda>c. tag c = q) (children el)"

text \<open>\<^verbatim>\<open>el.find("prefix:local")\<close>: the first such child, or \<open>None\<close>.\<close>

definition find_el :: "element \<Rightarrow> qname \<Rightarrow> element option" where
  "find_el el q = (case findall el q of [] \<Rightarrow> None | c # _ \<Rightarrow> Some c)"

text \<open>The elements below an element, in document order (the path \<^verbatim>\<open>.//\<close>).\<close>

fun descendants :: "element \<Rightarrow> element list" where
  "descendants (Element t a x cs) = concat (map (\<lambda>c. c # descendants c) cs)"

text \<open>\<^verbatim>\<open>el.findall(".//prefix:local")\<close> and \<^verbatim>\<open>el.find(".//prefix:local")\<close>.\<close>

definition findall_desc :: "element \<Rightarrow> qname \<Rightarrow> element list" where
  "findall_desc el q = filter (\<lambda>c. tag c = q) (descendants el)"

definition find_desc :: "element \<Rightarrow> qname \<Rightarrow> element option" where
  "find_desc el q = (case findall_desc el q of [] \<Rightarrow> None | c # _ \<Rightarrow> Some c)"

text \<open>\<^verbatim>\<open>(el.text or "")\<close>.\<close>

definition text_or_empty :: "element \<Rightarrow> pystr" where
  "text_or_empty el = (case text_of el of None \<Rightarrow> [] | Some t \<Rightarrow> t)"

text \<open>\<^verbatim>\<open>el.get(key)\<close>: the attribute's value, or \<open>None\<close>.\<close>

definition get_attr :: "element \<Rightarrow> pystr \<Rightarrow> pystr option" where
  "get_attr el k = map_of (attrib el) k"

section \<open>The unified record (models/unified\_record.py)\<close>

text \<open>
  A \<^verbatim>\<open>datetime\<close> is identified by its ISO text (\<^verbatim>\<open>isoformat()\<close>), which is what the
  store keeps of it.
\<close>

datatype datetime = Datetime (isoformat: pystr)

text \<open>
  The exceptions of the program: the \<^verbatim>\<open>RuntimeError\<close>s the OAI client raises (with
  what their messages report), the exceptions of the libraries that pass through it.
\<close>

datatype error =
    TransportError
  | HttpError nat
  | ParseError
  | AttributeError
  | OaiError "pystr option" "pystr option"
  | ValidationError
  | ValueError

record UnifiedScholarlyRecord =
  id' :: pystr
  oai_identifier :: pystr
  title :: pystr
  authors :: "pystr list"
  institution :: pystr
  repository :: pystr
  date_issued :: "pystr option"
  type :: "pystr option"
  url_landing_page :: "pystr option"
  abstract :: "pystr option"
  keywords' :: "pystr list"
  language :: "pystr option"
  collections :: "pystr list"
  date_indexed :: "datetime option"

text \<open>
  The class is a pydantic model and \<^verbatim>\<open>url_landing_page\<close> has the type
  \<^verbatim>\<open>Optional[HttpUrl]\<close>: constructing a record validates the value given for that
  field and raises \<^verbatim>\<open>ValidationError\<close> when it is not a URL. Pydantic is a library,
  not code of the repository: its check is the parameter \<open>HttpUrl\<close>, which gives \<open>None\<close>
  for a refused value and otherwise the URL as the field then holds it. The other
  fields take the strings and lists they are given. The argument is the record of the
  constructor's keyword arguments.
\<close>

definition UnifiedScholarlyRecord_init ::
  "(pystr \<Rightarrow> pystr option) \<Rightarrow> UnifiedScholarlyRecord \<Rightarrow> error + UnifiedScholarlyRecord" where
  "UnifiedScholarlyRecord_init HttpUrl kw =
     (case url_landing_page kw of
        None \<Rightarrow> Inr kw
      | Some v \<Rightarrow>
          (case HttpUrl v of
             None \<Rightarrow> Inl ValidationError
           | Some u \<Rightarrow> Inr (kw\<lparr>url_landing_page := Some u\<rparr>)))"

text \<open>
  A stand-in for pydantic's check, to run the model on concrete inputs: a value is a
  URL when it has the scheme \<^verbatim>\<open>http://\<close> or \<^verbatim>\<open>https://\<close> and something after it (a
  URL needs a host), and it is kept as it is written. The theorems below hold for every
  check; this one is used only where an input is evaluated.
\<close>

definition sample_HttpUrl :: "pystr \<Rightarrow> pystr option" where
  "sample_HttpUrl v =
     (if (startswith v (py ''http://'') \<and> 7 < length v) \<or>
         (startswith v (py ''https://'') \<and> 8 < length v)
      then Some v else None)"

section \<open>The field mappers (services/mapper\_dspace.py, services/mapper\_omeka.py)\<close>

definition NS_DC :: pystr where
  "NS_DC = py ''http://purl.org/dc/elements/1.1/''"

text \<open>The loop of \<^verbatim>\<open>_get_first\<close>: the first text that is not blank, stripped.\<close>

fun get_first_loop :: "element list \<Rightarrow> pystr option" where
  "get_first_loop [] = None"
| "get_first_loop (el # els) =
     (let text = strip (text_or_empty el)
      in if text \<noteq> [] then Some text else get_first_loop els)"

definition get_first :: "element \<Rightarrow> pystr \<Rightarrow> pystr option" where
  "get_first dc_el tg = get_first_loop (findall dc_el (NS_DC, tg))"

text \<open>The loop of \<^verbatim>\<open>_get_all\<close>: every text that is not blank, stripped, in order.\<close>

fun get_all_loop :: "element list \<Rightarrow> pystr list" where
  "get_all_loop [] = []"
| "get_all_loop (el # els) =
     (let text = strip (text_or_empty el)
      in if text \<noteq> [] then text # get_all_loop els else get_all_loop els)"

definition get_all :: "element \<Rightarrow> pystr \<Rightarrow> pystr list" where
  "get_all dc_el tg = get_all_loop (findall dc_el (NS_DC, tg))"

text \<open>
  The loop that looks for the landing page: the first value that starts with
  \<^verbatim>\<open>http://\<close> or \<^verbatim>\<open>https://\<close>; \<open>None\<close> when the loop ends without a \<^verbatim>\<open>break\<close>.
\<close>

fun url_landing_loop :: "pystr list \<Rightarrow> pystr option" where
  "url_landing_loop [] = None"
| "url_landing_loop (val # vals) =
     (if startswith val (py ''http://'') \<or> startswith val (py ''https://'')
      then Some val else url_landing_loop vals)"

text \<open>The placeholder title of the mappers; its sixth code point is U+00ED, i acute.\<close>

definition Sin_titulo :: pystr where
  "Sin_titulo = py ''Sin t'' @ [237] @ py ''tulo''"

text \<open>
  \<^verbatim>\<open>map_dspace_dc_to_record\<close>. \<open>utcnow\<close> is the reading of the clock that
  \<^verbatim>\<open>datetime.utcnow()\<close> returns.
\<close>

definition map_dspace_dc_to_record ::
  "(pystr \<Rightarrow> pystr option) \<Rightarrow> datetime \<Rightarrow> pystr \<Rightarrow> element \<Rightarrow> pystr \<Rightarrow> pystr
     \<Rightarrow> error + UnifiedScholarlyRecord" where
  "map_dspace_dc_to_record HttpUrl utcnow oai_id dc_el inst repo =
     (let title0 = or_else (get_first dc_el (py ''title'')) Sin_titulo;
          authors0 = get_all dc_el (py ''creator'');
          authors1 = (if authors0 = [] then get_all dc_el (py ''contributor'') else authors0);
          abstract0 = get_first dc_el (py ''description'');
          keywords0 = get_all dc_el (py ''subject'');
          date_issued0 = get_first dc_el (py ''date'');
          type0 = get_first dc_el (py ''type'');
          language0 = get_first dc_el (py ''language'');
          url_landing = url_landing_loop (get_all dc_el (py ''identifier''))
      in UnifiedScholarlyRecord_init HttpUrl
           \<lparr>id' = oai_id, oai_identifier = oai_id, title = title0, authors = authors1,
            institution = inst, repository = repo, date_issued = date_issued0,
            type = type0, url_landing_page = url_landing, abstract = abstract0,
            keywords' = keywords0, language = language0, collections = [],
            date_indexed = Some utcnow\<rparr>)"

text \<open>\<^verbatim>\<open>map_omeka_dc_to_record\<close>: the same steps, in the Omeka mapper's module.\<close>

definition map_omeka_dc_to_record ::
  "(pystr \<Rightarrow> pystr option) \<Rightarrow> datetime \<Rightarrow> pystr \<Rightarrow> element \<Rightarrow> pystr \<Rightarrow> pystr
     \<Rightarrow> error + UnifiedScholarlyRecord" where
  "map_omeka_dc_to_record HttpUrl utcnow oai_id dc_el inst repo =
     (let title0 = or_else (get_first dc_el (py ''title'')) Sin_titulo;
          authors0 = get_all dc_el (py ''creator'');
          authors1 = (if authors0 = [] then get_all dc_el (py ''contributor'') else authors0);
          abstract0 = get_first dc_el (py ''description'');
          keywords0 = get_all dc_el (py ''subject'');
          date_issued0 = get_first dc_el (py ''date'');
          type0 = get_first dc_el (py ''type'');
          language0 = get_first dc_el (py ''language'');
          url_landing = url_landing_loop (get_all dc_el (py ''identifier''))
      in UnifiedScholarlyRecord_init HttpUrl
           \<lparr>id' = oai_id, oai_identifier = oai_id, title = title0, authors = authors1,
            institution = inst, repository = repo, date_issued = date_issued0,
            type = type0, url_landing_page = url_landing, abstract = abstract0,
            keywords' = keywords0, language = language0, collections = [],
            date_indexed = Some utcnow\<rparr>)"

section \<open>The OAI-PMH client (services/oai\_client.py)\<close>

record OaiClient =
  base_url :: pystr
  metadata_prefix :: pystr
  set_spec :: "pystr option"
  timeout :: nat

text \<open>\<^verbatim>\<open>OaiClient.__init__\<close>.\<close>

definition OaiClient_init :: "pystr \<Rightarrow> pystr \<Rightarrow> pystr option \<Rightarrow> nat \<Rightarrow> OaiClient" where
  "OaiClient_init url prefix spec tmo =
     \<lparr>base_url = rstrip_chars url (py ''?''), metadata_prefix = prefix, set_spec = spec,
      timeout = tmo\<rparr>"

text \<open>Truth of an optional string: \<open>None\<close> and the empty string are falsy.\<close>

definition truthy :: "pystr option \<Rightarrow> bool" where
  "truthy x = (case x of None \<Rightarrow> False | Some s \<Rightarrow> s \<noteq> [])"

text \<open>
  The query parameters of a request: a dictionary, kept as the list of its items in
  insertion order (the keys are distinct).
\<close>

type_synonym params = "(pystr \<times> pystr) list"

text \<open>\<^verbatim>\<open>if x: params[key] = x\<close>.\<close>

definition opt_param :: "pystr \<Rightarrow> pystr option \<Rightarrow> params" where
  "opt_param k x = (case x of None \<Rightarrow> [] | Some s \<Rightarrow> if s = [] then [] else [(k, s)])"

text \<open>The parameters of the first request, as \<^verbatim>\<open>iter_records\<close> builds them.\<close>

definition initial_params :: "OaiClient \<Rightarrow> pystr option \<Rightarrow> pystr option \<Rightarrow> params" where
  "initial_params self from_date until_date =
     [(py ''verb'', py ''ListRecords''), (py ''metadataPrefix'', metadata_prefix self)]
     @ opt_param (py ''set'') (set_spec self)
     @ opt_param (py ''from'') from_date
     @ opt_param (py ''until'') until_date"

text \<open>
  What comes back for one request, as the loop sees it: \<^verbatim>\<open>client.get\<close> raised an
  exception of the transport (no status: a refused connection, a timeout);
  \<^verbatim>\<open>raise_for_status\<close> raised \<^verbatim>\<open>HTTPStatusError\<close> for the status given; the parser
  raised \<^verbatim>\<open>XMLSyntaxError\<close>; the recovering parser found no root element and returned
  \<^verbatim>\<open>None\<close>; or the root element of the parsed document.
\<close>

datatype response =
    RequestFailed
  | StatusError nat
  | XMLSyntaxError
  | NoRoot
  | Document element

text \<open>
  A request is the URL and the query parameters. The server is the list of its
  answers: the k-th entry answers the k-th request of the run. The list is finite; a
  run that asks for more than it holds has not finished (\<open>Starved\<close>, with the
  continuation token in hand).
\<close>

type_synonym request = "pystr \<times> params"

type_synonym server = "(request \<Rightarrow> response) list"

datatype ending = Done | Raised error | Starved "pystr option"

definition ns_oai :: pystr where
  "ns_oai = py ''http://www.openarchives.org/OAI/2.0/''"

definition ns_oai_dc :: pystr where
  "ns_oai_dc = py ''http://www.openarchives.org/OAI/2.0/oai_dc/''"

definition ns_dc :: pystr where
  "ns_dc = py ''http://purl.org/dc/elements/1.1/''"

text \<open>
  The body of the loop over the records of a page: the pair that is yielded, or
  \<open>None\<close> where the source says \<^verbatim>\<open>continue\<close>.
\<close>

definition record_item :: "element \<Rightarrow> (pystr \<times> element) option" where
  "record_item rec =
     (case find_el rec (ns_oai, py ''header'') of
        None \<Rightarrow> None
      | Some header_el \<Rightarrow>
          (case find_el header_el (ns_oai, py ''identifier'') of
             None \<Rightarrow> None
           | Some oai_id_el \<Rightarrow>
               if strip (text_or_empty oai_id_el) = [] then None
               else
                 (case find_el rec (ns_oai, py ''metadata'') of
                    None \<Rightarrow> None
                  | Some md_el \<Rightarrow>
                      (case find_el md_el (ns_oai_dc, py ''dc'') of
                         Some dc_el \<Rightarrow> Some (strip (text_or_empty oai_id_el), dc_el)
                       | None \<Rightarrow>
                           (case find_el md_el (ns_dc, py ''dc'') of
                              None \<Rightarrow> None
                            | Some dc_el \<Rightarrow> Some (strip (text_or_empty oai_id_el), dc_el))))))"

text \<open>The pairs one page yields, in document order.\<close>

definition page_records :: "element \<Rightarrow> (pystr \<times> element) list" where
  "page_records root = List.map_filter record_item (findall_desc root (ns_oai, py ''record''))"

text \<open>The continuation token of a page: present and not blank, stripped.\<close>

definition next_token :: "element \<Rightarrow> pystr option" where
  "next_token root =
     (case find_desc root (ns_oai, py ''resumptionToken'') of
        None \<Rightarrow> None
      | Some rt_el \<Rightarrow>
          if strip (text_or_empty rt_el) \<noteq> [] then Some (strip (text_or_empty rt_el))
          else None)"

text \<open>The parameters of the next request: the token alone once there is one.\<close>

definition req_params :: "params \<Rightarrow> pystr option \<Rightarrow> params" where
  "req_params ps resumption_token =
     (case resumption_token of
        None \<Rightarrow> ps
      | Some t \<Rightarrow>
          if t = [] then ps
          else [(py ''verb'', py ''ListRecords''), (py ''resumptionToken'', t)])"

text \<open>
  The \<^verbatim>\<open>while True\<close> loop of \<^verbatim>\<open>iter_records\<close>, from the state
  \<open>resumption_token\<close>: the pairs yielded and how the generator ends. The pairs of a
  page are yielded before the next request is sent, so the pairs of the earlier pages
  stand in the result also when a later request fails.
\<close>

fun iter_loop ::
  "pystr \<Rightarrow> params \<Rightarrow> pystr option \<Rightarrow> server \<Rightarrow> (pystr \<times> element) list \<times> ending" where
  "iter_loop url ps resumption_token [] = ([], Starved resumption_token)"
| "iter_loop url ps resumption_token (answer # answers) =
     (case answer (url, req_params ps resumption_token) of
        RequestFailed \<Rightarrow> ([], Raised TransportError)
      | StatusError status \<Rightarrow>
          if truthy resumption_token \<and> status \<ge> 500 then ([], Done)
          else ([], Raised (HttpError status))
      | XMLSyntaxError \<Rightarrow> ([], Raised ParseError)
      | NoRoot \<Rightarrow> ([], Raised AttributeError)
      | Document root \<Rightarrow>
          (case find_desc root (ns_oai, py ''error'') of
             Some error_el \<Rightarrow>
               ([], Raised (OaiError (get_attr error_el (py ''code'')) (text_of error_el)))
           | None \<Rightarrow>
               (case next_token root of
                  None \<Rightarrow> (page_records root, Done)
                | Some t \<Rightarrow>
                    (case iter_loop url ps (Some t) answers of
                       (items, e) \<Rightarrow> (page_records root @ items, e)))))"

definition iter_records ::
  "OaiClient \<Rightarrow> pystr option \<Rightarrow> pystr option \<Rightarrow> server
     \<Rightarrow> (pystr \<times> element) list \<times> ending" where
  "iter_records self from_date until_date answers =
     iter_loop (base_url self) (initial_params self from_date until_date) None answers"

section \<open>The store (services/sqlite\_backend.py, services/harvest\_state.py)\<close>

text \<open>
  A row of the table \<^verbatim>\<open>records\<close>: fourteen text columns, each of which can be NULL
  (\<open>None\<close>).
\<close>

record row =
  col_id :: "pystr option"
  col_oai_identifier :: "pystr option"
  col_title :: "pystr option"
  col_authors :: "pystr option"
  col_institution :: "pystr option"
  col_repository :: "pystr option"
  col_date_issued :: "pystr option"
  col_type :: "pystr option"
  col_url_landing_page :: "pystr option"
  col_abstract :: "pystr option"
  col_keywords :: "pystr option"
  col_language :: "pystr option"
  col_collections :: "pystr option"
  col_date_indexed :: "pystr option"

text \<open>
  The database: the table \<^verbatim>\<open>records\<close> by its primary key \<^verbatim>\<open>id\<close>, and the table
  \<^verbatim>\<open>harvest_state\<close> by its primary key \<^verbatim>\<open>repo_id\<close>, whose other column
  \<^verbatim>\<open>last_harvest_date\<close> can be NULL.
\<close>

record database =
  records :: "pystr \<rightharpoonup> row"
  harvest_state :: "pystr \<rightharpoonup> pystr option"

text \<open>
  \<^verbatim>\<open>SqliteSearchBackend.index_record\<close> (INSERT OR REPLACE by \<^verbatim>\<open>id\<close>). \<open>utcnow\<close> is
  the clock, read when the record has no \<^verbatim>\<open>date_indexed\<close>.
\<close>

definition index_record :: "datetime \<Rightarrow> UnifiedScholarlyRecord \<Rightarrow> database \<Rightarrow> database" where
  "index_record utcnow r db =
     (let authors_str = join (py ''; '') (authors r);
          keywords_str = join (py ''; '') (keywords' r);
          collections_str = join (py ''; '') (collections r)
      in db\<lparr>records := (records db)(id' r \<mapsto>
           \<lparr>col_id = Some (id' r),
            col_oai_identifier = Some (oai_identifier r),
            col_title = Some (title r),
            col_authors = Some authors_str,
            col_institution = Some (institution r),
            col_repository = Some (repository r),
            col_date_issued = date_issued r,
            col_type = type r,
            col_url_landing_page = (if truthy (url_landing_page r) then url_landing_page r else None),
            col_abstract = abstract r,
            col_keywords = Some keywords_str,
            col_language = language r,
            col_collections = Some collections_str,
            col_date_indexed =
              Some (isoformat (case date_indexed r of None \<Rightarrow> utcnow | Some d \<Rightarrow> d))\<rparr>)\<rparr>)"

text \<open>
  \<^verbatim>\<open>[a.strip() for a in (s or "").split(";") if a.strip()]\<close>, the expression
  \<^verbatim>\<open>_row_to_record\<close> reads each list column with.
\<close>

definition split_column :: "pystr option \<Rightarrow> pystr list" where
  "split_column s =
     map strip (filter (\<lambda>a. strip a \<noteq> [])
       (split (case s of None \<Rightarrow> [] | Some t \<Rightarrow> t) (of_char CHR '';'')))"

text \<open>
  \<^verbatim>\<open>SqliteSearchBackend._row_to_record\<close>. \<open>fromisoformat\<close> is
  \<^verbatim>\<open>datetime.fromisoformat\<close> (\<open>None\<close>: it raises \<^verbatim>\<open>ValueError\<close>); it is evaluated
  before the record is constructed. The pydantic model refuses \<open>None\<close> for the required
  string fields.
\<close>

definition row_to_record ::
  "(pystr \<Rightarrow> pystr option) \<Rightarrow> (pystr \<Rightarrow> datetime option) \<Rightarrow> row
     \<Rightarrow> error + UnifiedScholarlyRecord" where
  "row_to_record HttpUrl fromisoformat rw =
     (case (case col_date_indexed rw of
              None \<Rightarrow> Some None
            | Some s \<Rightarrow> if s = [] then Some None else map_option Some (fromisoformat s)) of
        None \<Rightarrow> Inl ValueError
      | Some date_indexed0 \<Rightarrow>
          (case (col_id rw, col_oai_identifier rw, col_title rw, col_institution rw,
                 col_repository rw) of
             (Some id0, Some oai0, Some title0, Some inst0, Some repo0) \<Rightarrow>
               UnifiedScholarlyRecord_init HttpUrl
                 \<lparr>id' = id0, oai_identifier = oai0, title = title0,
                  authors = split_column (col_authors rw),
                  institution = inst0, repository = repo0,
                  date_issued = col_date_issued rw, type = col_type rw,
                  url_landing_page = col_url_landing_page rw,
                  abstract = col_abstract rw,
                  keywords' = split_column (col_keywords rw),
                  language = col_language rw,
                  collections = split_column (col_collections rw),
                  date_indexed = date_indexed0\<rparr>
           | _ \<Rightarrow> Inl ValidationError))"

text \<open>\<^verbatim>\<open>get_last_harvest_date\<close>: \<^verbatim>\<open>if row and row[0]: return row[0]\<close>, else \<open>None\<close>.\<close>

definition get_last_harvest_date :: "database \<Rightarrow> pystr \<Rightarrow> pystr option" where
  "get_last_harvest_date db repo =
     (case harvest_state db repo of
        None \<Rightarrow> None
      | Some row0 \<Rightarrow> if truthy row0 then row0 else None)"

text \<open>
  \<^verbatim>\<open>utcnow.date().isoformat()\<close>: the date is the first ten code points of the ISO text
  of a datetime.
\<close>

definition date_isoformat :: "datetime \<Rightarrow> pystr" where
  "date_isoformat d = take 10 (isoformat d)"

text \<open>\<^verbatim>\<open>update_last_harvest_date\<close>: an upsert by \<^verbatim>\<open>repo_id\<close>; today when no date is given.\<close>

definition update_last_harvest_date ::
  "datetime \<Rightarrow> pystr \<Rightarrow> pystr option \<Rightarrow> database \<Rightarrow> database" where
  "update_last_harvest_date utcnow repo date_str db =
     (let date_str1 = (case date_str of None \<Rightarrow> date_isoformat utcnow | Some s \<Rightarrow> s)
      in db\<lparr>harvest_state := (harvest_state db)(repo \<mapsto> Some date_str1)\<rparr>)"

section \<open>The connectors (services/dspace\_connector.py, services/omeka\_connector.py)\<close>

text \<open>
  \<^verbatim>\<open>DspaceRepoConfig\<close> and \<^verbatim>\<open>OmekaRepoConfig\<close> have the same six fields (the set of
  the Omeka configuration is annotated \<^verbatim>\<open>str\<close>, that of DSpace \<^verbatim>\<open>Optional[str]\<close>).
\<close>

record RepoConfig =
  cfg_repo_id :: pystr
  cfg_base_url :: pystr
  cfg_metadata_prefix :: pystr
  cfg_set_spec :: "pystr option"
  cfg_institution :: pystr
  cfg_repository :: pystr

text \<open>The client a connector builds in \<^verbatim>\<open>__init__\<close> (the timeout has its default, 30).\<close>

definition client_of :: "RepoConfig \<Rightarrow> OaiClient" where
  "client_of config =
     OaiClient_init (cfg_base_url config) (cfg_metadata_prefix config) (cfg_set_spec config) 30"

text \<open>
  How a call of a harvest ends: it returns the count, it raises, or the server's
  answers ran out before the iteration ended.
\<close>

datatype outcome = Returned nat | Failed error | Unfinished

text \<open>
  The body of the \<^verbatim>\<open>for\<close> loop of a harvest over the pairs the client yields: map,
  index, count. An exception of the mapper leaves the loop; what was indexed before
  stays. \<open>clock k\<close> is the reading of \<^verbatim>\<open>datetime.utcnow()\<close> once \<open>k\<close> pairs have been
  handled in this call.
\<close>

fun harvest_loop ::
  "(datetime \<Rightarrow> pystr \<Rightarrow> element \<Rightarrow> error + UnifiedScholarlyRecord) \<Rightarrow> (nat \<Rightarrow> datetime)
     \<Rightarrow> (pystr \<times> element) list \<Rightarrow> nat \<Rightarrow> database \<Rightarrow> (error + nat) \<times> database" where
  "harvest_loop mapper clock [] count db = (Inr count, db)"
| "harvest_loop mapper clock ((oai_id, dc_el) # items) count db =
     (case mapper (clock count) oai_id dc_el of
        Inl e \<Rightarrow> (Inl e, db)
      | Inr r \<Rightarrow> harvest_loop mapper clock items (count + 1) (index_record (clock count) r db))"

text \<open>
  \<^verbatim>\<open>harvest_full\<close> of both connectors, for the connector's mapper (called with the
  institution and the repository of the configuration).
\<close>

definition harvest_full ::
  "(datetime \<Rightarrow> pystr \<Rightarrow> element \<Rightarrow> pystr \<Rightarrow> pystr \<Rightarrow> error + UnifiedScholarlyRecord)
     \<Rightarrow> (nat \<Rightarrow> datetime) \<Rightarrow> RepoConfig \<Rightarrow> server \<Rightarrow> database \<Rightarrow> outcome \<times> database" where
  "harvest_full mapper clock config answers db =
     (case iter_records (client_of config) None None answers of
        (items, e) \<Rightarrow>
          (case harvest_loop
                  (\<lambda>now oai_id dc_el.
                     mapper now oai_id dc_el (cfg_institution config) (cfg_repository config))
                  clock items 0 db of
             (Inl err, db1) \<Rightarrow> (Failed err, db1)
           | (Inr count, db1) \<Rightarrow>
               (case e of
                  Raised err \<Rightarrow> (Failed err, db1)
                | Starved t \<Rightarrow> (Unfinished, db1)
                | Done \<Rightarrow>
                    (Returned count,
                     update_last_harvest_date (clock count) (cfg_repo_id config) None db1))))"

text \<open>\<^verbatim>\<open>harvest_incremental\<close> of both connectors.\<close>

definition harvest_incremental ::
  "(datetime \<Rightarrow> pystr \<Rightarrow> element \<Rightarrow> pystr \<Rightarrow> pystr \<Rightarrow> error + UnifiedScholarlyRecord)
     \<Rightarrow> (nat \<Rightarrow> datetime) \<Rightarrow> RepoConfig \<Rightarrow> server \<Rightarrow> database \<Rightarrow> outcome \<times> database" where
  "harvest_incremental mapper clock config answers db =
     (let last_date = get_last_harvest_date db (cfg_repo_id config)
      in case iter_records (client_of config) last_date None answers of
        (items, e) \<Rightarrow>
          (case harvest_loop
                  (\<lambda>now oai_id dc_el.
                     mapper now oai_id dc_el (cfg_institution config) (cfg_repository config))
                  clock items 0 db of
             (Inl err, db1) \<Rightarrow> (Failed err, db1)
           | (Inr count, db1) \<Rightarrow>
               (case e of
                  Raised err \<Rightarrow> (Failed err, db1)
                | Starved t \<Rightarrow> (Unfinished, db1)
                | Done \<Rightarrow>
                    (Returned count,
                     if count > 0
                     then update_last_harvest_date (clock count) (cfg_repo_id config) None db1
                     else db1))))"

definition DspaceConnector_harvest_full ::
  "(pystr \<Rightarrow> pystr option) \<Rightarrow> (nat \<Rightarrow> datetime) \<Rightarrow> RepoConfig \<Rightarrow> server \<Rightarrow> database
     \<Rightarrow> outcome \<times> database" where
  "DspaceConnector_harvest_full HttpUrl = harvest_full (map_dspace_dc_to_record HttpUrl)"

definition DspaceConnector_harvest_incremental ::
  "(pystr \<Rightarrow> pystr option) \<Rightarrow> (nat \<Rightarrow> datetime) \<Rightarrow> RepoConfig \<Rightarrow> server \<Rightarrow> database
     \<Rightarrow> outcome \<times> database" where
  "DspaceConnector_harvest_incremental HttpUrl =
     harvest_incremental (map_dspace_dc_to_record HttpUrl)"

definition OmekaConnector_harvest_full ::
  "(pystr \<Rightarrow> pystr option) \<Rightarrow> (nat \<Rightarrow> datetime) \<Rightarrow> RepoConfig \<Rightarrow> server \<Rightarrow> database
     \<Rightarrow> outcome \<times> database" where
  "OmekaConnector_harvest_full HttpUrl = harvest_full (map_omeka_dc_to_record HttpUrl)"

definition OmekaConnector_harvest_incremental ::
  "(pystr \<Rightarrow> pystr option) \<Rightarrow> (nat \<Rightarrow> datetime) \<Rightarrow> RepoConfig \<Rightarrow> server \<Rightarrow> database
     \<Rightarrow> outcome \<times> database" where
  "OmekaConnector_harvest_incremental HttpUrl =
     harvest_incremental (map_omeka_dc_to_record HttpUrl)"

section \<open>Example inputs\<close>

text \<open>Concrete inputs on which the theorems below are run.\<close>

definition dc_field :: "string \<Rightarrow> string \<Rightarrow> element" where
  "dc_field tg txt = Element (NS_DC, py tg) [] (Some (py txt)) []"

definition dc_of :: "element list \<Rightarrow> element" where
  "dc_of fs = Element (ns_oai_dc, py ''dc'') [] None fs"

text \<open>A title and two identifiers, the URL first.\<close>

definition dc_url_first :: element where
  "dc_url_first =
     dc_of [dc_field ''title'' '' Un libro '', dc_field ''creator'' ''Ana'',
            dc_field ''identifier'' ''http://example.org/1'', dc_field ''identifier'' ''hdl:123'']"

text \<open>No title (a blank one), and two identifiers, the URL second.\<close>

definition dc_url_second :: element where
  "dc_url_second =
     dc_of [dc_field ''title'' ''  '', dc_field ''identifier'' ''hdl:123'',
            dc_field ''identifier'' ''http://example.org/1'']"

text \<open>An identifier that is a scheme with no host.\<close>

definition dc_no_host :: element where
  "dc_no_host = dc_of [dc_field ''title'' ''Un libro'', dc_field ''identifier'' ''http://'']"

text \<open>The records the mappers make of the first two, at the clock of the examples.\<close>

definition record_url_first :: UnifiedScholarlyRecord where
  "record_url_first =
     \<lparr>id' = py ''oai:ex:1'', oai_identifier = py ''oai:ex:1'', title = py ''Un libro'',
      authors = [py ''Ana''], institution = py ''UCLV'', repository = py ''DSpace UCLV'',
      date_issued = None, type = None,
      url_landing_page = Some (py ''http://example.org/1''), abstract = None,
      keywords' = [], language = None, collections = [],
      date_indexed = Some (Datetime (py ''2024-05-06T07:08:09''))\<rparr>"

definition record_url_second :: UnifiedScholarlyRecord where
  "record_url_second =
     \<lparr>id' = py ''oai:ex:2'', oai_identifier = py ''oai:ex:2'', title = Sin_titulo,
      authors = [], institution = py ''UCLV'', repository = py ''DSpace UCLV'',
      date_issued = None, type = None,
      url_landing_page = Some (py ''http://example.org/1''), abstract = None,
      keywords' = [], language = None, collections = [],
      date_indexed = Some (Datetime (py ''2024-05-06T07:08:09''))\<rparr>"

definition oai_el :: "string \<Rightarrow> pystr option \<Rightarrow> element list \<Rightarrow> element" where
  "oai_el tg txt cs = Element (ns_oai, py tg) [] txt cs"

definition oai_record :: "string \<Rightarrow> element \<Rightarrow> element" where
  "oai_record ident dc =
     oai_el ''record'' None
       [oai_el ''header'' None [oai_el ''identifier'' (Some (py ident)) []],
        oai_el ''metadata'' None [dc]]"

text \<open>A page with one record and a continuation token, and a page with no record.\<close>

definition page_one :: element where
  "page_one =
     oai_el ''OAI-PMH'' None
       [oai_el ''ListRecords'' None
          [oai_record ''oai:ex:1'' dc_url_first,
           oai_el ''resumptionToken'' (Some (py ''t1'')) []]]"

definition page_empty :: element where
  "page_empty = oai_el ''OAI-PMH'' None [oai_el ''ListRecords'' None []]"

text \<open>A response that carries an OAI error element.\<close>

definition page_error :: element where
  "page_error =
     oai_el ''OAI-PMH'' None
       [Element (ns_oai, py ''error'') [(py ''code'', py ''badArgument'')]
          (Some (py ''bad from'')) []]"

definition example_config :: RepoConfig where
  "example_config =
     \<lparr>cfg_repo_id = py ''dspace_uclv'', cfg_base_url = py ''https://ex.org/oai?'',
      cfg_metadata_prefix = py ''oai_dc'', cfg_set_spec = None,
      cfg_institution = py ''UCLV'', cfg_repository = py ''DSpace UCLV''\<rparr>"

definition example_clock :: "nat \<Rightarrow> datetime" where
  "example_clock k = Datetime (py ''2024-05-06T07:08:09'')"

definition example_db :: database where
  "example_db =
     \<lparr>records = Map.empty, harvest_state = [py ''dspace_uclv'' \<mapsto> Some (py ''2024-01-01'')]\<rparr>"

text \<open>The same database with the empty string for watermark.\<close>

definition example_db_blank :: database where
  "example_db_blank =
     \<lparr>records = Map.empty, harvest_state = [py ''dspace_uclv'' \<mapsto> Some []]\<rparr>"

definition example_fromisoformat :: "pystr \<Rightarrow> datetime option" where
  "example_fromisoformat s = (if length s = 19 then Some (Datetime s) else None)"

definition example_record :: "pystr list \<Rightarrow> UnifiedScholarlyRecord" where
  "example_record auths =
     \<lparr>id' = py ''oai:ex:1'', oai_identifier = py ''oai:ex:1'', title = py ''Un libro'',
      authors = auths, institution = py ''UCLV'', repository = py ''DSpace UCLV'',
      date_issued = Some (py ''2020''), type = None,
      url_landing_page = Some (py ''http://example.org/1''), abstract = None,
      keywords' = [py ''a'', py ''b c''], language = None, collections = [],
      date_indexed = None\<rparr>"

section \<open>Strings: stripping\<close>

lemma lstrip_idem: "lstrip (lstrip s) = lstrip s"
  by (simp add: lstrip_def dropWhile_idem)

lemma rstrip_idem: "rstrip (rstrip s) = rstrip s"
  by (simp add: rstrip_def dropWhile_idem)

lemma lstrip_rstrip_fix:
  assumes "lstrip s = s"
  shows "lstrip (rstrip s) = rstrip s"
proof (cases s)
  case Nil
  then show ?thesis by (simp add: lstrip_def rstrip_def)
next
  case (Cons x xs)
  have nx: "\<not> isspace x"
  proof
    assume "isspace x"
    with assms Cons have "dropWhile isspace xs = x # xs" by (simp add: lstrip_def)
    then have "length (x # xs) \<le> length xs" using length_dropWhile_le[of isspace xs] by simp
    then show False by simp
  qed
  have "\<exists>zs. dropWhile isspace (rev s) = zs @ [x]"
    using Cons nx by (cases "\<forall>y\<in>set xs. isspace y") (simp_all add: dropWhile_append)
  then obtain zs where "dropWhile isspace (rev s) = zs @ [x]" ..
  then show ?thesis using nx by (simp add: lstrip_def rstrip_def)
qed

lemma strip_idem: "strip (strip s) = strip s"
  unfolding strip_def using lstrip_rstrip_fix[OF lstrip_idem] rstrip_idem by simp

lemma strip_Sin_titulo: "strip Sin_titulo = Sin_titulo"
  by (simp add: strip_def lstrip_def rstrip_def Sin_titulo_def isspace_def)

lemma get_first_loop_nonblank: "get_first_loop els = Some t \<Longrightarrow> t \<noteq> [] \<and> strip t = t"
  by (induction els) (auto simp: Let_def strip_idem split: if_splits)

lemma get_first_loop_None: "get_first_loop els = None \<longleftrightarrow> (\<forall>el\<in>set els. strip (text_or_empty el) = [])"
  by (induction els) (auto simp: Let_def)

lemma get_all_loop_eq: "get_all_loop els = filter (\<lambda>t. t \<noteq> []) (map (\<lambda>el. strip (text_or_empty el)) els)"
  by (induction els) (auto simp: Let_def)

section \<open>The mappers: the fields of the record they make\<close>

lemma get_all_eq: "get_all dc tg = filter (\<lambda>t. t \<noteq> []) (map (\<lambda>el. strip (text_or_empty el)) (findall dc (NS_DC, tg)))"
  by (simp add: get_all_def get_all_loop_eq)

lemma init_cases:
  "UnifiedScholarlyRecord_init H kw = Inr r \<Longrightarrow>
     r = kw\<lparr>url_landing_page := (case url_landing_page kw of None \<Rightarrow> None | Some v \<Rightarrow> H v)\<rparr>"
  by (auto simp: UnifiedScholarlyRecord_init_def split: option.splits)

lemma map_dspace_fields:
  assumes "map_dspace_dc_to_record H now i dc inst repo = Inr r"
  shows "id' r = i" "oai_identifier r = i"
    "title r = or_else (get_first dc (py ''title'')) Sin_titulo"
    "url_landing_page r = (case url_landing_loop (get_all dc (py ''identifier'')) of None \<Rightarrow> None | Some v \<Rightarrow> H v)"
  using init_cases[OF assms[unfolded map_dspace_dc_to_record_def Let_def]] by simp_all

lemma map_omeka_fields:
  assumes "map_omeka_dc_to_record H now i dc inst repo = Inr r"
  shows "id' r = i" "oai_identifier r = i"
    "title r = or_else (get_first dc (py ''title'')) Sin_titulo"
    "url_landing_page r = (case url_landing_loop (get_all dc (py ''identifier'')) of None \<Rightarrow> None | Some v \<Rightarrow> H v)"
  using init_cases[OF assms[unfolded map_omeka_dc_to_record_def Let_def]] by simp_all

lemma map_dspace_returns:
  "(\<exists>r. map_dspace_dc_to_record H now i dc inst repo = Inr r) \<longleftrightarrow>
     (case url_landing_loop (get_all dc (py ''identifier'')) of None \<Rightarrow> True | Some v \<Rightarrow> H v \<noteq> None)"
  by (auto simp: map_dspace_dc_to_record_def Let_def UnifiedScholarlyRecord_init_def split: option.splits)

lemma map_dspace_raises:
  "(\<nexists>r. map_dspace_dc_to_record H now i dc inst repo = Inr r) \<Longrightarrow>
     map_dspace_dc_to_record H now i dc inst repo = Inl ValidationError"
  by (auto simp: map_dspace_dc_to_record_def Let_def UnifiedScholarlyRecord_init_def split: option.splits)

lemma or_else_title:
  "strip (or_else (get_first_loop els) Sin_titulo) \<noteq> []"
  "(\<forall>el\<in>set els. strip (text_or_empty el) = []) \<Longrightarrow> or_else (get_first_loop els) Sin_titulo = Sin_titulo"
proof -
  show "strip (or_else (get_first_loop els) Sin_titulo) \<noteq> []"
  proof (cases "get_first_loop els")
    case None
    then show ?thesis by (simp add: or_else_def strip_Sin_titulo) (simp add: Sin_titulo_def)
  next
    case (Some t)
    then show ?thesis using get_first_loop_nonblank[OF Some] by (simp add: or_else_def)
  qed
  show "(\<forall>el\<in>set els. strip (text_or_empty el) = []) \<Longrightarrow> or_else (get_first_loop els) Sin_titulo = Sin_titulo"
    using get_first_loop_None[of els] by (simp add: or_else_def)
qed

lemma url_landing_loop_first:
  "\<forall>p\<in>set pre. \<not> (startswith p (py ''http://'') \<or> startswith p (py ''https://'')) \<Longrightarrow>
   startswith u (py ''http://'') \<or> startswith u (py ''https://'') \<Longrightarrow>
   url_landing_loop (pre @ u # post) = Some u"
  by (induction pre) auto

lemma url_landing_loop_None:
  "url_landing_loop vs = None \<longleftrightarrow> (\<forall>v\<in>set vs. \<not> (startswith v (py ''http://'') \<or> startswith v (py ''https://'')))"
  by (induction vs) auto

section \<open>The mappers on the example inputs\<close>

lemmas str_defs = strip_def lstrip_def rstrip_def isspace_def startswith_def or_else_def
lemmas xml_defs = findall_def find_el_def findall_desc_def find_desc_def text_or_empty_def get_attr_def
lemmas mapper_defs = get_first_def get_all_def NS_DC_def Sin_titulo_def UnifiedScholarlyRecord_init_def sample_HttpUrl_def
lemmas example_defs = dc_field_def dc_of_def dc_url_first_def dc_url_second_def dc_no_host_def 
  oai_el_def oai_record_def page_one_def page_empty_def ns_oai_def ns_oai_dc_def ns_dc_def

lemma mapped_url_first:
  "map_dspace_dc_to_record sample_HttpUrl (example_clock 0) (py ''oai:ex:1'') dc_url_first (py ''UCLV'') (py ''DSpace UCLV'') = Inr record_url_first"
  "map_omeka_dc_to_record sample_HttpUrl (example_clock 0) (py ''oai:ex:1'') dc_url_first (py ''UCLV'') (py ''DSpace UCLV'') = Inr record_url_first"
  by (simp_all add: map_dspace_dc_to_record_def map_omeka_dc_to_record_def str_defs xml_defs mapper_defs example_defs
       example_clock_def record_url_first_def)

lemma mapped_url_second:
  "map_dspace_dc_to_record sample_HttpUrl (example_clock 0) (py ''oai:ex:2'') dc_url_second (py ''UCLV'') (py ''DSpace UCLV'') = Inr record_url_second"
  "map_omeka_dc_to_record sample_HttpUrl (example_clock 0) (py ''oai:ex:2'') dc_url_second (py ''UCLV'') (py ''DSpace UCLV'') = Inr record_url_second"
  by (simp_all add: map_dspace_dc_to_record_def map_omeka_dc_to_record_def str_defs xml_defs mapper_defs example_defs
       example_clock_def record_url_second_def)

lemma identifiers_url_first:
  "map (\<lambda>el. strip (text_or_empty el)) (findall dc_url_first (NS_DC, py ''identifier'')) = [py ''http://example.org/1'', py ''hdl:123'']"
  by (simp add: str_defs xml_defs example_defs NS_DC_def)

lemma identifiers_url_second:
  "map (\<lambda>el. strip (text_or_empty el)) (findall dc_url_second (NS_DC, py ''identifier'')) = [py ''hdl:123'', py ''http://example.org/1'']"
  by (simp add: str_defs xml_defs example_defs NS_DC_def)

text \<open>
  Claim C7. Whatever the raw element and the identifier, a record that a mapper
  returns has its \<open>id\<close> equal to its \<open>oai_identifier\<close>; both are the identifier the
  mapper was given. Both mappers.
\<close>

theorem C7_id_equals_oai_identifier:
  "(map_dspace_dc_to_record HttpUrl utcnow oai_id dc_el inst repo = Inr r \<longrightarrow>
      id' r = oai_identifier r \<and> oai_identifier r = oai_id) \<and>
   (map_omeka_dc_to_record HttpUrl utcnow oai_id dc_el inst repo = Inr r' \<longrightarrow>
      id' r' = oai_identifier r' \<and> oai_identifier r' = oai_id)"
  using map_dspace_fields(1,2) map_omeka_fields(1,2) by metis

text \<open>C7 on the example element with the URL first.\<close>

theorem C7_witness:
  "map_dspace_dc_to_record sample_HttpUrl (example_clock 0) (py ''oai:ex:1'') dc_url_first
      (py ''UCLV'') (py ''DSpace UCLV'') = Inr record_url_first \<and>
   map_omeka_dc_to_record sample_HttpUrl (example_clock 0) (py ''oai:ex:1'') dc_url_first
      (py ''UCLV'') (py ''DSpace UCLV'') = Inr record_url_first \<and>
   id' record_url_first = oai_identifier record_url_first \<and>
   oai_identifier record_url_first = py ''oai:ex:1''"
  using C7_id_equals_oai_identifier[of sample_HttpUrl "example_clock 0" "py ''oai:ex:1''"
      dc_url_first "py ''UCLV''" "py ''DSpace UCLV''" record_url_first record_url_first]
    mapped_url_first by simp

text \<open>
  Claim C8. The title of a record that a mapper returns is never blank (and so never
  empty; it is a string, so never absent), the placeholder itself is not blank, and
  when every title occurrence of the raw element is blank (or there is none) the title
  is the placeholder. Both mappers.
\<close>

theorem C8_title_placeholder_never_blank:
  assumes "map_dspace_dc_to_record HttpUrl utcnow oai_id dc_el inst repo = Inr r \<or>
           map_omeka_dc_to_record HttpUrl utcnow oai_id dc_el inst repo = Inr r"
  shows "strip (title r) \<noteq> [] \<and> title r \<noteq> [] \<and> strip Sin_titulo \<noteq> [] \<and>
         (list_all (\<lambda>el. strip (text_or_empty el) = []) (findall dc_el (NS_DC, py ''title''))
            \<longrightarrow> title r = Sin_titulo)"
proof -
  have t: "title r = or_else (get_first_loop (findall dc_el (NS_DC, py ''title''))) Sin_titulo"
    using assms map_dspace_fields(3) map_omeka_fields(3) unfolding get_first_def by blast
  have 1: "strip (title r) \<noteq> []" unfolding t by (rule or_else_title(1))
  have 2: "title r \<noteq> []" using 1 by (auto simp: strip_def lstrip_def rstrip_def)
  have 3: "strip Sin_titulo \<noteq> []" by (simp add: strip_Sin_titulo) (simp add: Sin_titulo_def)
  have 4: "list_all (\<lambda>el. strip (text_or_empty el) = []) (findall dc_el (NS_DC, py ''title''))
            \<longrightarrow> title r = Sin_titulo"
    unfolding t using or_else_title(2) by (simp add: list_all_iff)
  show ?thesis using 1 2 3 4 by blast
qed

text \<open>C8 on the example element whose only title is blank.\<close>

theorem C8_witness:
  "map_dspace_dc_to_record sample_HttpUrl (example_clock 0) (py ''oai:ex:2'') dc_url_second
      (py ''UCLV'') (py ''DSpace UCLV'') = Inr record_url_second \<and>
   list_all (\<lambda>el. strip (text_or_empty el) = []) (findall dc_url_second (NS_DC, py ''title'')) \<and>
   title record_url_second = Sin_titulo \<and> strip (title record_url_second) \<noteq> []"
proof -
  have b: "list_all (\<lambda>el. strip (text_or_empty el) = []) (findall dc_url_second (NS_DC, py ''title''))"
    by (simp add: str_defs xml_defs example_defs NS_DC_def)
  show ?thesis
    using C8_title_placeholder_never_blank[OF disjI1, OF mapped_url_second(1)] mapped_url_second(1) b
    by blast
qed




text \<open>
  Claim C2, as amended. When the identifier occurrences of the raw element have, once
  stripped, one value \<open>u\<close> that starts with \<^verbatim>\<open>http://\<close> or \<^verbatim>\<open>https://\<close> and one value
  \<open>n\<close> that does not, the landing page of the record is \<open>u\<close> (as the record's type holds
  it) in either order of the two: the loop skips the values that are not URLs.
\<close>

theorem C2_landing_page_first_url_in_either_order:
  assumes "startswith u (py ''http://'') \<or> startswith u (py ''https://'')"
      and "\<not> (startswith n (py ''http://'') \<or> startswith n (py ''https://''))"
      and "map (\<lambda>el. strip (text_or_empty el)) (findall dc_el (NS_DC, py ''identifier'')) = [u, n] \<or>
           map (\<lambda>el. strip (text_or_empty el)) (findall dc_el (NS_DC, py ''identifier'')) = [n, u]"
      and "HttpUrl u = Some u'"
  shows "(\<exists>r. map_dspace_dc_to_record HttpUrl utcnow oai_id dc_el inst repo = Inr r \<and>
              url_landing_page r = Some u') \<and>
         (\<exists>r. map_omeka_dc_to_record HttpUrl utcnow oai_id dc_el inst repo = Inr r \<and>
              url_landing_page r = Some u')"
proof -
  have u: "u \<noteq> []" using assms(1) by (auto simp: startswith_def)
  have "url_landing_loop (get_all dc_el (py ''identifier'')) = Some u"
    using assms(1,2,3) u unfolding get_all_eq by auto
  then show ?thesis using assms(4)
    by (simp add: map_dspace_dc_to_record_def map_omeka_dc_to_record_def Let_def
      UnifiedScholarlyRecord_init_def)
qed

text \<open>
  C2 as stated fails: with the value that is not a URL first, the landing page is the
  URL that follows it, not absent.
\<close>

theorem C2_counterexample:
  "map_sum id url_landing_page
     (map_dspace_dc_to_record sample_HttpUrl (example_clock 0) (py ''oai:ex:2'') dc_url_second
        (py ''UCLV'') (py ''DSpace UCLV'')) = Inr (Some (py ''http://example.org/1'')) \<and>
   map_sum id url_landing_page
     (map_omeka_dc_to_record sample_HttpUrl (example_clock 0) (py ''oai:ex:2'') dc_url_second
        (py ''UCLV'') (py ''DSpace UCLV'')) = Inr (Some (py ''http://example.org/1'')) \<and>
   map (\<lambda>el. strip (text_or_empty el)) (findall dc_url_second (NS_DC, py ''identifier''))
     = [py ''hdl:123'', py ''http://example.org/1'']"
  using mapped_url_second identifiers_url_second by (simp add: record_url_second_def)

text \<open>The amended C2 on the example element with the URL second.\<close>

theorem C2_witness:
  "map (\<lambda>el. strip (text_or_empty el)) (findall dc_url_second (NS_DC, py ''identifier''))
     = [py ''hdl:123'', py ''http://example.org/1''] \<and>
   startswith (py ''http://example.org/1'') (py ''http://'') \<and>
   \<not> startswith (py ''hdl:123'') (py ''http://'') \<and>
   \<not> startswith (py ''hdl:123'') (py ''https://'') \<and>
   sample_HttpUrl (py ''http://example.org/1'') = Some (py ''http://example.org/1'') \<and>
   (\<exists>r. map_dspace_dc_to_record sample_HttpUrl (example_clock 0) (py ''oai:ex:2'') dc_url_second
      (py ''UCLV'') (py ''DSpace UCLV'') = Inr r \<and> url_landing_page r = Some (py ''http://example.org/1'')) \<and>
   (\<exists>r. map_omeka_dc_to_record sample_HttpUrl (example_clock 0) (py ''oai:ex:2'') dc_url_second
      (py ''UCLV'') (py ''DSpace UCLV'') = Inr r \<and> url_landing_page r = Some (py ''http://example.org/1''))"
proof -
  have a: "startswith (py ''http://example.org/1'') (py ''http://'') \<or> startswith (py ''http://example.org/1'') (py ''https://'')"
    by (simp add: startswith_def)
  have b: "\<not> (startswith (py ''hdl:123'') (py ''http://'') \<or> startswith (py ''hdl:123'') (py ''https://''))"
    by (simp add: startswith_def)
  have c: "sample_HttpUrl (py ''http://example.org/1'') = Some (py ''http://example.org/1'')"
    by (simp add: sample_HttpUrl_def startswith_def)
  show ?thesis
    using C2_landing_page_first_url_in_either_order[where u = "py ''http://example.org/1''"
        and n = "py ''hdl:123''" and dc_el = dc_url_second and HttpUrl = sample_HttpUrl
        and u' = "py ''http://example.org/1''" and utcnow = "example_clock 0"
        and oai_id = "py ''oai:ex:2''" and inst = "py ''UCLV''" and repo = "py ''DSpace UCLV''"]
      identifiers_url_second a b c
    by (simp add: startswith_def)
qed

section \<open>The iterator of the client\<close>

lemma iter_loop_append:
  "iter_loop url ps tok pre = (xs, Starved tok') \<Longrightarrow>
   iter_loop url ps tok (pre @ rest) =
     (xs @ fst (iter_loop url ps tok' rest), snd (iter_loop url ps tok' rest))"
proof (induction pre arbitrary: tok xs)
  case Nil
  then show ?case by simp
next
  case (Cons a pre)
  then show ?case
    by (auto split: response.splits option.splits if_splits prod.splits)
qed

lemma iter_loop_5xx_on_continuation:
  "truthy tok \<Longrightarrow> answer (url, req_params ps tok) = StatusError status \<Longrightarrow> 500 \<le> status \<Longrightarrow>
   iter_loop url ps tok (answer # rest) = ([], Done)"
  by simp

text \<open>
  Claim C1. Let the iterator have yielded \<open>xs\<close> over the answers \<open>pre\<close> and stand with
  a continuation token in hand (\<open>Starved tok\<close>, \<open>tok\<close> truthy). If the answer to its
  next request, the one that carries the token, is an HTTP status of 500 or more,
  the iterator ends normally (\<open>Done\<close>, no error) and the caller has received exactly
  \<open>xs\<close>, whatever the server would have answered afterwards.
\<close>

theorem C1_5xx_on_continuation_ends_iteration:
  assumes "iter_records self from_date until_date pre = (xs, Starved tok)"
      and "truthy tok"
      and "answer (base_url self, req_params (initial_params self from_date until_date) tok)
             = StatusError status"
      and "500 \<le> status"
  shows "iter_records self from_date until_date (pre @ answer # rest) = (xs, Done)"
proof -
  have "iter_loop (base_url self) (initial_params self from_date until_date) tok (answer # rest)
          = ([], Done)"
    using assms(2,3,4) by simp
  then show ?thesis
    using iter_loop_append[OF assms(1)[unfolded iter_records_def], of "answer # rest"]
    by (simp add: iter_records_def)
qed

lemmas client_defs = iter_records_def initial_params_def opt_param_def req_params_def truthy_def
  record_item_def page_records_def next_token_def client_of_def OaiClient_init_def rstrip_chars_def
  List.map_filter_def

lemma page_one_alone:
  "iter_records (client_of example_config) None None [\<lambda>q. Document page_one]
     = ([(py ''oai:ex:1'', dc_url_first)], Starved (Some (py ''t1'')))"
  by (simp add: client_defs str_defs xml_defs example_defs example_config_def)

text \<open>
  C1 on two pages: the first has one record and a token, the second is HTTP 500; the
  iterator yields exactly the record of the first page and ends.
\<close>

theorem C1_witness:
  "iter_records (client_of example_config) None None [\<lambda>q. Document page_one]
     = ([(py ''oai:ex:1'', dc_url_first)], Starved (Some (py ''t1''))) \<and>
   truthy (Some (py ''t1'')) \<and>
   iter_records (client_of example_config) None None
     [\<lambda>q. Document page_one, \<lambda>q. StatusError 500]
     = ([(py ''oai:ex:1'', dc_url_first)], Done)"
proof -
  have t: "truthy (Some (py ''t1''))" by (simp add: truthy_def)
  show ?thesis
    using C1_5xx_on_continuation_ends_iteration[OF page_one_alone t,
        where answer = "\<lambda>q. StatusError 500" and status = 500 and rest = "[]"]
      page_one_alone t
    by simp
qed

section \<open>The harvests and the watermark\<close>

lemma index_record_harvest_state [simp]:
  "harvest_state (index_record now r db) = harvest_state db"
  by (simp add: index_record_def Let_def)

lemma update_last_harvest_date_records [simp]:
  "records (update_last_harvest_date now repo d db) = records db"
  by (simp add: update_last_harvest_date_def Let_def)

lemma update_last_harvest_date_today:
  "harvest_state (update_last_harvest_date now repo None db)
     = (harvest_state db)(repo \<mapsto> Some (date_isoformat now))"
  by (simp add: update_last_harvest_date_def)

lemma harvest_loop_harvest_state:
  "harvest_loop m c items n db = (res, db') \<Longrightarrow> harvest_state db' = harvest_state db"
  by (induction m c items n db arbitrary: res db' rule: harvest_loop.induct)
     (auto split: sum.splits)

lemma harvest_loop_count:
  "harvest_loop m c items n db = (Inr k, db') \<Longrightarrow> k = n + length items"
  by (induction m c items n db arbitrary: k db' rule: harvest_loop.induct)
     (auto split: sum.splits)

lemma harvest_full_returned:
  assumes "harvest_full m clock config answers db = (Returned n, db')"
  shows "harvest_state db' = (harvest_state db)(cfg_repo_id config \<mapsto> Some (date_isoformat (clock n)))"
    and "iter_records (client_of config) None None answers
           = (fst (iter_records (client_of config) None None answers), Done)"
    and "n = length (fst (iter_records (client_of config) None None answers))"
proof -
  obtain items e where it: "iter_records (client_of config) None None answers = (items, e)"
    by (cases "iter_records (client_of config) None None answers")
  obtain res db1 where hl: "harvest_loop (\<lambda>now oai_id dc_el. m now oai_id dc_el (cfg_institution config) (cfg_repository config)) clock items 0 db = (res, db1)"
    by (cases "harvest_loop (\<lambda>now oai_id dc_el. m now oai_id dc_el (cfg_institution config) (cfg_repository config)) clock items 0 db")
  from assms it hl have res: "res = Inr n" and e: "e = Done"
    and db': "db' = update_last_harvest_date (clock n) (cfg_repo_id config) None db1"
    by (auto simp: harvest_full_def split: sum.splits ending.splits)
  show "harvest_state db' = (harvest_state db)(cfg_repo_id config \<mapsto> Some (date_isoformat (clock n)))"
    using harvest_loop_harvest_state[OF hl] db' by (simp add: update_last_harvest_date_today)
  show "iter_records (client_of config) None None answers
           = (fst (iter_records (client_of config) None None answers), Done)"
    using it e by simp
  show "n = length (fst (iter_records (client_of config) None None answers))"
    using harvest_loop_count[OF hl[unfolded res]] it by simp
qed

lemma harvest_incremental_returned:
  assumes "harvest_incremental m clock config answers db = (Returned n, db')"
  shows "harvest_state db' =
           (if 0 < n then (harvest_state db)(cfg_repo_id config \<mapsto> Some (date_isoformat (clock n)))
            else harvest_state db)"
    and "n = length (fst (iter_records (client_of config)
                (get_last_harvest_date db (cfg_repo_id config)) None answers))"
proof -
  let ?it = "iter_records (client_of config) (get_last_harvest_date db (cfg_repo_id config)) None answers"
  obtain items e where it: "?it = (items, e)" by (cases ?it)
  obtain res db1 where hl: "harvest_loop (\<lambda>now oai_id dc_el. m now oai_id dc_el (cfg_institution config) (cfg_repository config)) clock items 0 db = (res, db1)"
    by (cases "harvest_loop (\<lambda>now oai_id dc_el. m now oai_id dc_el (cfg_institution config) (cfg_repository config)) clock items 0 db")
  from assms it hl have res: "res = Inr n" and e: "e = Done"
    and db': "db' = (if 0 < n then update_last_harvest_date (clock n) (cfg_repo_id config) None db1 else db1)"
    by (auto simp: harvest_incremental_def Let_def split: sum.splits ending.splits)
  show "harvest_state db' =
           (if 0 < n then (harvest_state db)(cfg_repo_id config \<mapsto> Some (date_isoformat (clock n)))
            else harvest_state db)"
    using harvest_loop_harvest_state[OF hl] db' by (simp add: update_last_harvest_date_today)
  show "n = length (fst ?it)"
    using harvest_loop_count[OF hl[unfolded res]] it by simp
qed

lemma harvest_full_failed:
  "harvest_full m clock config answers db = (Failed err, db') \<Longrightarrow> harvest_state db' = harvest_state db"
  by (auto simp: harvest_full_def split: prod.splits sum.splits ending.splits
      dest: harvest_loop_harvest_state)

lemma harvest_incremental_failed:
  "harvest_incremental m clock config answers db = (Failed err, db') \<Longrightarrow> harvest_state db' = harvest_state db"
  by (auto simp: harvest_incremental_def Let_def split: prod.splits sum.splits ending.splits if_splits
      dest: harvest_loop_harvest_state)

lemma mapper_error:
  "map_dspace_dc_to_record H now i dc a b = Inl e \<Longrightarrow> e = ValidationError"
  "map_omeka_dc_to_record H now i dc a b = Inl e \<Longrightarrow> e = ValidationError"
  by (auto simp: map_dspace_dc_to_record_def map_omeka_dc_to_record_def Let_def
      UnifiedScholarlyRecord_init_def split: option.splits)

lemmas connector_defs = DspaceConnector_harvest_full_def DspaceConnector_harvest_incremental_def
  OmekaConnector_harvest_full_def OmekaConnector_harvest_incremental_def

text \<open>
  Claim C4. A full harvest of either connector that returns has set the watermark of
  the source to the date of the clock at its end (the other sources keep theirs), so
  that a later read gives that date; it returns the number of pairs the iterator
  yielded, zero included.
\<close>

theorem C4_full_harvest_sets_watermark:
  assumes "DspaceConnector_harvest_full HttpUrl clock config answers db = (Returned n, db') \<or>
           OmekaConnector_harvest_full HttpUrl clock config answers db = (Returned n, db')"
  shows "harvest_state db' =
           (harvest_state db)(cfg_repo_id config \<mapsto> Some (date_isoformat (clock n))) \<and>
         get_last_harvest_date db' (cfg_repo_id config) =
           (if date_isoformat (clock n) = [] then None else Some (date_isoformat (clock n))) \<and>
         n = length (fst (iter_records (client_of config) None None answers))"
proof -
  from assms obtain m where
    m: "harvest_full m clock config answers db = (Returned n, db')"
    unfolding connector_defs by blast
  have hs: "harvest_state db' =
           (harvest_state db)(cfg_repo_id config \<mapsto> Some (date_isoformat (clock n)))"
    by (rule harvest_full_returned(1)[OF m])
  have n: "n = length (fst (iter_records (client_of config) None None answers))"
    by (rule harvest_full_returned(3)[OF m])
  show ?thesis using hs n by (simp add: get_last_harvest_date_def truthy_def)
qed

text \<open>
  Claim C5. An incremental harvest of either connector that returns 0 leaves the table
  of watermarks as it was; one that returns a positive count has set the watermark of
  the source to the date of the clock at its end. The count is the number of pairs the
  iterator yielded from the stored watermark on.
\<close>

theorem C5_incremental_harvest_watermark:
  assumes "DspaceConnector_harvest_incremental HttpUrl clock config answers db = (Returned n, db') \<or>
           OmekaConnector_harvest_incremental HttpUrl clock config answers db = (Returned n, db')"
  shows "(n = 0 \<longrightarrow> harvest_state db' = harvest_state db) \<and>
         (0 < n \<longrightarrow> harvest_state db' =
            (harvest_state db)(cfg_repo_id config \<mapsto> Some (date_isoformat (clock n)))) \<and>
         n = length (fst (iter_records (client_of config)
                (get_last_harvest_date db (cfg_repo_id config)) None answers))"
proof -
  from assms obtain m where
    m: "harvest_incremental m clock config answers db = (Returned n, db')"
    unfolding connector_defs by blast
  show ?thesis using harvest_incremental_returned[OF m] by simp
qed

lemma map_omeka_returns:
  "(\<exists>r. map_omeka_dc_to_record H now i dc inst repo = Inr r) \<longleftrightarrow>
     (case url_landing_loop (get_all dc (py ''identifier'')) of None \<Rightarrow> True | Some v \<Rightarrow> H v \<noteq> None)"
  by (auto simp: map_omeka_dc_to_record_def Let_def UnifiedScholarlyRecord_init_def split: option.splits)

lemma harvest_loop_outcome:
  assumes ok: "\<And>now i dc. (\<exists>r. m now i dc = Inr r) \<longleftrightarrow> acc (i, dc)"
      and er: "\<And>now i dc e. m now i dc = Inl e \<Longrightarrow> e = ValidationError"
  shows "fst (harvest_loop m c items n db)
           = (if list_all acc items then Inr (n + length items) else Inl ValidationError)"
proof (induction items arbitrary: n db)
  case Nil
  then show ?case by simp
next
  case (Cons a items)
  obtain i dc where a: "a = (i, dc)" by (cases a)
  show ?case
  proof (cases "m (c n) i dc")
    case (Inl e)
    have "e = ValidationError" using er[OF Inl] .
    moreover have "\<not> acc (i, dc)" using ok[of "c n" i dc] Inl by simp
    ultimately show ?thesis using Inl a by simp
  next
    case (Inr r)
    have "acc (i, dc)" using ok[of "c n" i dc] Inr by blast
    then show ?thesis using Inr a Cons.IH[of "n + 1" "index_record (c n) r db"] by simp
  qed
qed

lemma iter_records_raises:
  assumes run: "iter_records self from_date until_date pre = (xs, Starved tok)"
      and step: "iter_loop (base_url self) (initial_params self from_date until_date) tok
                   (answer # rest) = ([], Raised err)"
  shows "iter_records self from_date until_date (pre @ answer # rest) = (xs, Raised err)"
  using iter_loop_append[OF run[unfolded iter_records_def], of "answer # rest"] step
  by (simp add: iter_records_def)

lemma iter_loop_raises_at:
  assumes "(answer (url, req_params ps tok) = RequestFailed \<and> err = TransportError) \<or>
           (\<exists>status. answer (url, req_params ps tok) = StatusError status \<and>
              (\<not> truthy tok \<or> status < 500) \<and> err = HttpError status) \<or>
           (answer (url, req_params ps tok) = XMLSyntaxError \<and> err = ParseError) \<or>
           (answer (url, req_params ps tok) = NoRoot \<and> err = AttributeError) \<or>
           (\<exists>root error_el. answer (url, req_params ps tok) = Document root \<and>
              find_desc root (ns_oai, py ''error'') = Some error_el \<and>
              err = OaiError (get_attr error_el (py ''code'')) (text_of error_el))"
  shows "iter_loop url ps tok (answer # rest) = ([], Raised err)"
  using assms by (elim disjE exE conjE) auto

lemma harvest_full_raised:
  assumes it: "iter_records (client_of config) None None answers = (xs, Raised err)"
      and ok: "\<And>now i dc. (\<exists>r. m now i dc (cfg_institution config) (cfg_repository config) = Inr r)
                 \<longleftrightarrow> acc (i, dc)"
      and er: "\<And>now i dc e. m now i dc (cfg_institution config) (cfg_repository config) = Inl e
                 \<Longrightarrow> e = ValidationError"
  shows "fst (harvest_full m clock config answers db)
           = Failed (if list_all acc xs then err else ValidationError)"
proof -
  let ?m = "\<lambda>now oai_id dc_el. m now oai_id dc_el (cfg_institution config) (cfg_repository config)"
  have f: "fst (harvest_loop ?m clock xs 0 db)
             = (if list_all acc xs then Inr (0 + length xs) else Inl ValidationError)"
    by (rule harvest_loop_outcome) (use ok er in auto)
  obtain res db1 where hl: "harvest_loop ?m clock xs 0 db = (res, db1)"
    by (cases "harvest_loop ?m clock xs 0 db")
  show ?thesis using it hl f by (auto simp: harvest_full_def)
qed

lemma harvest_incremental_raised:
  assumes it: "iter_records (client_of config) (get_last_harvest_date db (cfg_repo_id config)) None
                 answers = (xs, Raised err)"
      and ok: "\<And>now i dc. (\<exists>r. m now i dc (cfg_institution config) (cfg_repository config) = Inr r)
                 \<longleftrightarrow> acc (i, dc)"
      and er: "\<And>now i dc e. m now i dc (cfg_institution config) (cfg_repository config) = Inl e
                 \<Longrightarrow> e = ValidationError"
  shows "fst (harvest_incremental m clock config answers db)
           = Failed (if list_all acc xs then err else ValidationError)"
proof -
  let ?m = "\<lambda>now oai_id dc_el. m now oai_id dc_el (cfg_institution config) (cfg_repository config)"
  have f: "fst (harvest_loop ?m clock xs 0 db)
             = (if list_all acc xs then Inr (0 + length xs) else Inl ValidationError)"
    by (rule harvest_loop_outcome) (use ok er in auto)
  obtain res db1 where hl: "harvest_loop ?m clock xs 0 db = (res, db1)"
    by (cases "harvest_loop ?m clock xs 0 db")
  show ?thesis using it hl f by (auto simp: harvest_incremental_def)
qed

lemma harvest_failed_frame:
  "fst (harvest_full m clock config answers db) = Failed e \<Longrightarrow>
     harvest_state (snd (harvest_full m clock config answers db)) = harvest_state db"
  "fst (harvest_incremental m clock config answers db) = Failed e \<Longrightarrow>
     harvest_state (snd (harvest_incremental m clock config answers db)) = harvest_state db"
  using harvest_full_failed[of m clock config answers db e]
    harvest_incremental_failed[of m clock config answers db e]
  by (metis prod.collapse)+


text \<open>
  Claim C6. Let the iterator of a harvest have yielded \<open>xs\<close> over the answers \<open>pre\<close>
  and stand before its next request (\<open>Starved tok\<close>; \<open>pre\<close> is empty and \<open>tok\<close> is
  \<open>None\<close> at the first request). If the answer to that request is fatal, namely a
  failure of the transport, an HTTP status error on the first request or with a status
  below 500, a body that does not parse or has no root, or a document with an OAI
  error element, then the iterator raises the error \<open>err\<close> of that cause, and in both
  modes and for both connectors the harvest raises exactly \<open>err\<close> (unless a record
  yielded before it failed the validation of its landing page, and then the harvest
  has raised that \<^verbatim>\<open>ValidationError\<close>), and the table of watermarks is as it was. Also,
  whatever the server answers, a harvest that raises leaves the table of watermarks as
  it was.
\<close>

theorem C6_fatal_cause_fails_harvest_keeps_watermark:
  assumes run: "iter_records (client_of config) from_date None pre = (xs, Starved tok)"
      and cause:
        "(answer (base_url (client_of config),
                  req_params (initial_params (client_of config) from_date None) tok)
            = RequestFailed \<and> err = TransportError) \<or>
         (\<exists>status.
            answer (base_url (client_of config),
                    req_params (initial_params (client_of config) from_date None) tok)
              = StatusError status \<and>
            (\<not> truthy tok \<or> status < 500) \<and> err = HttpError status) \<or>
         (answer (base_url (client_of config),
                  req_params (initial_params (client_of config) from_date None) tok)
            = XMLSyntaxError \<and> err = ParseError) \<or>
         (answer (base_url (client_of config),
                  req_params (initial_params (client_of config) from_date None) tok)
            = NoRoot \<and> err = AttributeError) \<or>
         (\<exists>root error_el.
            answer (base_url (client_of config),
                    req_params (initial_params (client_of config) from_date None) tok)
              = Document root \<and>
            find_desc root (ns_oai, py ''error'') = Some error_el \<and>
            err = OaiError (get_attr error_el (py ''code'')) (text_of error_el))"
  shows
    "iter_records (client_of config) from_date None (pre @ answer # rest) = (xs, Raised err) \<and>
     (from_date = None \<longrightarrow>
        fst (DspaceConnector_harvest_full HttpUrl clock config (pre @ answer # rest) db)
          = Failed (if list_all (\<lambda>(oai_id, dc_el).
                          case url_landing_loop (get_all dc_el (py ''identifier'')) of
                            None \<Rightarrow> True | Some v \<Rightarrow> HttpUrl v \<noteq> None) xs
                    then err else ValidationError) \<and>
        fst (OmekaConnector_harvest_full HttpUrl clock config (pre @ answer # rest) db)
          = Failed (if list_all (\<lambda>(oai_id, dc_el).
                          case url_landing_loop (get_all dc_el (py ''identifier'')) of
                            None \<Rightarrow> True | Some v \<Rightarrow> HttpUrl v \<noteq> None) xs
                    then err else ValidationError) \<and>
        harvest_state
          (snd (DspaceConnector_harvest_full HttpUrl clock config (pre @ answer # rest) db))
          = harvest_state db \<and>
        harvest_state
          (snd (OmekaConnector_harvest_full HttpUrl clock config (pre @ answer # rest) db))
          = harvest_state db) \<and>
     (from_date = get_last_harvest_date db (cfg_repo_id config) \<longrightarrow>
        fst (DspaceConnector_harvest_incremental HttpUrl clock config (pre @ answer # rest) db)
          = Failed (if list_all (\<lambda>(oai_id, dc_el).
                          case url_landing_loop (get_all dc_el (py ''identifier'')) of
                            None \<Rightarrow> True | Some v \<Rightarrow> HttpUrl v \<noteq> None) xs
                    then err else ValidationError) \<and>
        fst (OmekaConnector_harvest_incremental HttpUrl clock config (pre @ answer # rest) db)
          = Failed (if list_all (\<lambda>(oai_id, dc_el).
                          case url_landing_loop (get_all dc_el (py ''identifier'')) of
                            None \<Rightarrow> True | Some v \<Rightarrow> HttpUrl v \<noteq> None) xs
                    then err else ValidationError) \<and>
        harvest_state
          (snd (DspaceConnector_harvest_incremental HttpUrl clock config (pre @ answer # rest) db))
          = harvest_state db \<and>
        harvest_state
          (snd (OmekaConnector_harvest_incremental HttpUrl clock config (pre @ answer # rest) db))
          = harvest_state db) \<and>
     ((DspaceConnector_harvest_full HttpUrl clock config answers db = (Failed e, db') \<or>
       DspaceConnector_harvest_incremental HttpUrl clock config answers db = (Failed e, db') \<or>
       OmekaConnector_harvest_full HttpUrl clock config answers db = (Failed e, db') \<or>
       OmekaConnector_harvest_incremental HttpUrl clock config answers db = (Failed e, db'))
        \<longrightarrow> harvest_state db' = harvest_state db)"
proof -
  let ?acc = "\<lambda>(oai_id, dc_el).
      case url_landing_loop (get_all dc_el (py ''identifier'')) of
        None \<Rightarrow> True | Some v \<Rightarrow> HttpUrl v \<noteq> None"
  let ?answers = "pre @ answer # rest"
  have step: "iter_loop (base_url (client_of config))
                (initial_params (client_of config) from_date None) tok (answer # rest)
              = ([], Raised err)"
    by (rule iter_loop_raises_at) (rule cause)
  have it: "iter_records (client_of config) from_date None ?answers = (xs, Raised err)"
    by (rule iter_records_raises[OF run step])
  have okd: "(\<exists>r. map_dspace_dc_to_record HttpUrl now i dc a b = Inr r) \<longleftrightarrow> ?acc (i, dc)"
    for now i dc a b
    using map_dspace_returns[of HttpUrl now i dc a b] by simp
  have oko: "(\<exists>r. map_omeka_dc_to_record HttpUrl now i dc a b = Inr r) \<longleftrightarrow> ?acc (i, dc)"
    for now i dc a b
    using map_omeka_returns[of HttpUrl now i dc a b] by simp
  have full: "fst (DspaceConnector_harvest_full HttpUrl clock config ?answers db)
                = Failed (if list_all ?acc xs then err else ValidationError) \<and>
              fst (OmekaConnector_harvest_full HttpUrl clock config ?answers db)
                = Failed (if list_all ?acc xs then err else ValidationError) \<and>
              harvest_state (snd (DspaceConnector_harvest_full HttpUrl clock config ?answers db))
                = harvest_state db \<and>
              harvest_state (snd (OmekaConnector_harvest_full HttpUrl clock config ?answers db))
                = harvest_state db"
    if n: "from_date = None"
  proof -
    have d: "fst (harvest_full (map_dspace_dc_to_record HttpUrl) clock config ?answers db)
               = Failed (if list_all ?acc xs then err else ValidationError)"
      by (rule harvest_full_raised[OF it[unfolded n]]) (rule okd, rule mapper_error(1))
    have o: "fst (harvest_full (map_omeka_dc_to_record HttpUrl) clock config ?answers db)
               = Failed (if list_all ?acc xs then err else ValidationError)"
      by (rule harvest_full_raised[OF it[unfolded n]]) (rule oko, rule mapper_error(2))
    show ?thesis
      unfolding connector_defs using d o harvest_failed_frame(1)[OF d] harvest_failed_frame(1)[OF o]
      by blast
  qed
  have inc: "fst (DspaceConnector_harvest_incremental HttpUrl clock config ?answers db)
                = Failed (if list_all ?acc xs then err else ValidationError) \<and>
              fst (OmekaConnector_harvest_incremental HttpUrl clock config ?answers db)
                = Failed (if list_all ?acc xs then err else ValidationError) \<and>
              harvest_state (snd (DspaceConnector_harvest_incremental HttpUrl clock config ?answers db))
                = harvest_state db \<and>
              harvest_state (snd (OmekaConnector_harvest_incremental HttpUrl clock config ?answers db))
                = harvest_state db"
    if n: "from_date = get_last_harvest_date db (cfg_repo_id config)"
  proof -
    have d: "fst (harvest_incremental (map_dspace_dc_to_record HttpUrl) clock config ?answers db)
               = Failed (if list_all ?acc xs then err else ValidationError)"
      by (rule harvest_incremental_raised[OF it[unfolded n]]) (rule okd, rule mapper_error(1))
    have o: "fst (harvest_incremental (map_omeka_dc_to_record HttpUrl) clock config ?answers db)
               = Failed (if list_all ?acc xs then err else ValidationError)"
      by (rule harvest_incremental_raised[OF it[unfolded n]]) (rule oko, rule mapper_error(2))
    show ?thesis
      unfolding connector_defs using d o harvest_failed_frame(2)[OF d] harvest_failed_frame(2)[OF o]
      by blast
  qed
  have frame: "(DspaceConnector_harvest_full HttpUrl clock config answers db = (Failed e, db') \<or>
       DspaceConnector_harvest_incremental HttpUrl clock config answers db = (Failed e, db') \<or>
       OmekaConnector_harvest_full HttpUrl clock config answers db = (Failed e, db') \<or>
       OmekaConnector_harvest_incremental HttpUrl clock config answers db = (Failed e, db'))
        \<longrightarrow> harvest_state db' = harvest_state db"
    unfolding connector_defs using harvest_full_failed harvest_incremental_failed by blast
  show ?thesis using it full inc frame by blast
qed

section \<open>The harvests on the example inputs\<close>

lemmas harvest_defs = connector_defs harvest_full_def harvest_incremental_def
  get_last_harvest_date_def update_last_harvest_date_def date_isoformat_def index_record_def

lemma full_empty:
  "DspaceConnector_harvest_full sample_HttpUrl example_clock example_config
     [\<lambda>q. Document page_empty] example_db
   = (Returned 0, example_db\<lparr>harvest_state := [py ''dspace_uclv'' \<mapsto> Some (py ''2024-05-06'')]\<rparr>)"
  by (simp add: harvest_defs client_defs str_defs xml_defs example_defs example_config_def
      example_db_def example_clock_def)

text \<open>C4 on a server whose one page has no record: the count is 0, the watermark is set.\<close>

theorem C4_witness:
  "DspaceConnector_harvest_full sample_HttpUrl example_clock example_config
     [\<lambda>q. Document page_empty] example_db
   = (Returned 0, example_db\<lparr>harvest_state := [py ''dspace_uclv'' \<mapsto> Some (py ''2024-05-06'')]\<rparr>) \<and>
   iter_records (client_of example_config) None None [\<lambda>q. Document page_empty] = ([], Done) \<and>
   get_last_harvest_date
     (example_db\<lparr>harvest_state := [py ''dspace_uclv'' \<mapsto> Some (py ''2024-05-06'')]\<rparr>)
     (cfg_repo_id example_config) = Some (py ''2024-05-06'')"
proof -
  have it: "iter_records (client_of example_config) None None [\<lambda>q. Document page_empty] = ([], Done)"
    by (simp add: client_defs str_defs xml_defs example_defs example_config_def)
  show ?thesis
    using C4_full_harvest_sets_watermark[OF disjI1, OF full_empty] full_empty it
    by (simp add: example_config_def get_last_harvest_date_def truthy_def)
qed

lemma incremental_empty:
  "DspaceConnector_harvest_incremental sample_HttpUrl example_clock example_config
     [\<lambda>q. Document page_empty] example_db = (Returned 0, example_db)"
  by (simp add: harvest_defs client_defs str_defs xml_defs example_defs example_config_def
      example_db_def example_clock_def)

lemma iter_page_one_then_500:
  "iter_records self from_date until_date [\<lambda>q. Document page_one, \<lambda>q. StatusError 500]
     = ([(py ''oai:ex:1'', dc_url_first)], Done)"
  by (simp add: iter_records_def truthy_def record_item_def page_records_def next_token_def
      List.map_filter_def str_defs xml_defs example_defs)

lemma harvest_loop_one:
  "harvest_loop (\<lambda>now oai_id dc_el. map_dspace_dc_to_record sample_HttpUrl now oai_id dc_el
       (cfg_institution example_config) (cfg_repository example_config))
     example_clock [(py ''oai:ex:1'', dc_url_first)] 0 db
   = (Inr 1, index_record (example_clock 0) record_url_first db)"
  using mapped_url_first(1) by (simp add: example_config_def)

lemma incremental_one:
  "fst (DspaceConnector_harvest_incremental sample_HttpUrl example_clock example_config
     [\<lambda>q. Document page_one, \<lambda>q. StatusError 500] db) = Returned 1"
  by (simp only: DspaceConnector_harvest_incremental_def harvest_incremental_def Let_def
      iter_page_one_then_500 harvest_loop_one prod.case sum.case ending.case fst_conv)

text \<open>C5 on a page with no record (count 0) and on a page with one record (count 1).\<close>

theorem C5_witness:
  "DspaceConnector_harvest_incremental sample_HttpUrl example_clock example_config
     [\<lambda>q. Document page_empty] example_db = (Returned 0, example_db) \<and>
   fst (DspaceConnector_harvest_incremental sample_HttpUrl example_clock example_config
     [\<lambda>q. Document page_one, \<lambda>q. StatusError 500] example_db) = Returned 1 \<and>
   harvest_state (snd (DspaceConnector_harvest_incremental sample_HttpUrl example_clock
     example_config [\<lambda>q. Document page_one, \<lambda>q. StatusError 500] example_db))
     = [py ''dspace_uclv'' \<mapsto> Some (py ''2024-05-06'')]"
proof -
  let ?run = "DspaceConnector_harvest_incremental sample_HttpUrl example_clock
     example_config [\<lambda>q. Document page_one, \<lambda>q. StatusError 500] example_db"
  have one: "?run = (Returned 1, snd ?run)"
    using incremental_one by (metis prod.collapse)
  have hs: "harvest_state (snd ?run) =
      (harvest_state example_db)(cfg_repo_id example_config \<mapsto>
         Some (date_isoformat (example_clock 1)))"
    using C5_incremental_harvest_watermark[OF disjI1, OF one] by simp
  have ev: "(harvest_state example_db)(cfg_repo_id example_config \<mapsto>
         Some (date_isoformat (example_clock 1))) = [py ''dspace_uclv'' \<mapsto> Some (py ''2024-05-06'')]"
    by (simp add: example_clock_def date_isoformat_def example_db_def example_config_def)
  have zero: "harvest_state example_db = harvest_state example_db"
    using C5_incremental_harvest_watermark[OF disjI1, OF incremental_empty] by simp
  show ?thesis
    using incremental_empty incremental_one hs[unfolded ev] zero by blast
qed

lemma no_answer_yet:
  "iter_records self from_date until_date [] = ([], Starved None)"
  by (simp add: iter_records_def)

lemma page_one_any_date:
  "iter_records self from_date until_date [\<lambda>q. Document page_one]
     = ([(py ''oai:ex:1'', dc_url_first)], Starved (Some (py ''t1'')))"
  by (simp add: iter_records_def truthy_def record_item_def page_records_def next_token_def
      List.map_filter_def str_defs xml_defs example_defs)

lemma page_one_maps:
  "list_all (\<lambda>(oai_id, dc_el).
       case url_landing_loop (get_all dc_el (py ''identifier'')) of
         None \<Rightarrow> True | Some v \<Rightarrow> sample_HttpUrl v \<noteq> None)
     [(py ''oai:ex:1'', dc_url_first)]"
  by (simp add: str_defs xml_defs mapper_defs example_defs)

lemma page_error_element:
  "find_desc page_error (ns_oai, py ''error'')
     = Some (Element (ns_oai, py ''error'') [(py ''code'', py ''badArgument'')]
               (Some (py ''bad from'')) [])"
  by (simp add: page_error_def oai_el_def xml_defs)

text \<open>
  C6 on the example server: HTTP 500 at the first request, HTTP 404 and a failed
  transport at the request after the first page, a body that does not parse, and a
  document with an OAI error element.
\<close>

theorem C6_witness_fatal_causes:
  "iter_records (client_of example_config) None None [\<lambda>q. Document page_one]
     = ([(py ''oai:ex:1'', dc_url_first)], Starved (Some (py ''t1''))) \<and>
   fst (DspaceConnector_harvest_full sample_HttpUrl example_clock example_config
          [\<lambda>q. StatusError 500] example_db) = Failed (HttpError 500) \<and>
   harvest_state (snd (DspaceConnector_harvest_full sample_HttpUrl example_clock example_config
          [\<lambda>q. StatusError 500] example_db)) = harvest_state example_db \<and>
   fst (DspaceConnector_harvest_incremental sample_HttpUrl example_clock example_config
          [\<lambda>q. Document page_one, \<lambda>q. StatusError 404] example_db) = Failed (HttpError 404) \<and>
   harvest_state (snd (DspaceConnector_harvest_incremental sample_HttpUrl example_clock
          example_config [\<lambda>q. Document page_one, \<lambda>q. StatusError 404] example_db))
     = harvest_state example_db \<and>
   fst (DspaceConnector_harvest_full sample_HttpUrl example_clock example_config
          [\<lambda>q. Document page_one, \<lambda>q. RequestFailed] example_db) = Failed TransportError \<and>
   fst (OmekaConnector_harvest_full sample_HttpUrl example_clock example_config
          [\<lambda>q. XMLSyntaxError] example_db) = Failed ParseError \<and>
   fst (OmekaConnector_harvest_incremental sample_HttpUrl example_clock example_config
          [\<lambda>q. Document page_error] example_db)
     = Failed (OaiError (Some (py ''badArgument'')) (Some (py ''bad from''))) \<and>
   harvest_state (snd (OmekaConnector_harvest_incremental sample_HttpUrl example_clock
          example_config [\<lambda>q. Document page_error] example_db)) = harvest_state example_db"
proof -
  let ?d = "get_last_harvest_date example_db (cfg_repo_id example_config)"
  have a: "fst (DspaceConnector_harvest_full sample_HttpUrl example_clock example_config
                  [\<lambda>q. StatusError 500] example_db) = Failed (HttpError 500) \<and>
           harvest_state (snd (DspaceConnector_harvest_full sample_HttpUrl example_clock
                  example_config [\<lambda>q. StatusError 500] example_db)) = harvest_state example_db"
    using C6_fatal_cause_fails_harvest_keeps_watermark[OF no_answer_yet,
        where answer = "\<lambda>q. StatusError 500" and err = "HttpError 500" and rest = "[]"
        and config = example_config and from_date = None and HttpUrl = sample_HttpUrl
        and clock = example_clock and db = example_db]
    by (simp add: truthy_def)
  have b: "fst (DspaceConnector_harvest_incremental sample_HttpUrl example_clock example_config
                  [\<lambda>q. Document page_one, \<lambda>q. StatusError 404] example_db)
             = Failed (HttpError 404) \<and>
           harvest_state (snd (DspaceConnector_harvest_incremental sample_HttpUrl example_clock
                  example_config [\<lambda>q. Document page_one, \<lambda>q. StatusError 404] example_db))
             = harvest_state example_db"
    using C6_fatal_cause_fails_harvest_keeps_watermark[OF page_one_any_date,
        where answer = "\<lambda>q. StatusError 404" and err = "HttpError 404" and rest = "[]"
        and config = example_config and from_date = ?d and HttpUrl = sample_HttpUrl
        and clock = example_clock and db = example_db] page_one_maps
    by simp
  have c: "fst (DspaceConnector_harvest_full sample_HttpUrl example_clock example_config
                  [\<lambda>q. Document page_one, \<lambda>q. RequestFailed] example_db) = Failed TransportError"
    using C6_fatal_cause_fails_harvest_keeps_watermark[OF page_one_any_date,
        where answer = "\<lambda>q. RequestFailed" and err = TransportError and rest = "[]"
        and config = example_config and from_date = None and HttpUrl = sample_HttpUrl
        and clock = example_clock and db = example_db] page_one_maps
    by simp
  have d: "fst (OmekaConnector_harvest_full sample_HttpUrl example_clock example_config
                  [\<lambda>q. XMLSyntaxError] example_db) = Failed ParseError"
    using C6_fatal_cause_fails_harvest_keeps_watermark[OF no_answer_yet,
        where answer = "\<lambda>q. XMLSyntaxError" and err = ParseError and rest = "[]"
        and config = example_config and from_date = None and HttpUrl = sample_HttpUrl
        and clock = example_clock and db = example_db]
    by simp
  have e: "fst (OmekaConnector_harvest_incremental sample_HttpUrl example_clock example_config
                  [\<lambda>q. Document page_error] example_db)
             = Failed (OaiError (Some (py ''badArgument'')) (Some (py ''bad from''))) \<and>
           harvest_state (snd (OmekaConnector_harvest_incremental sample_HttpUrl example_clock
                  example_config [\<lambda>q. Document page_error] example_db)) = harvest_state example_db"
    using C6_fatal_cause_fails_harvest_keeps_watermark[OF no_answer_yet,
        where answer = "\<lambda>q. Document page_error"
        and err = "OaiError (Some (py ''badArgument'')) (Some (py ''bad from''))" and rest = "[]"
        and config = example_config and from_date = ?d and HttpUrl = sample_HttpUrl
        and clock = example_clock and db = example_db] page_error_element
    by (simp add: get_attr_def)
  show ?thesis using page_one_any_date a b c d e by blast
qed

text \<open>
  Claim C9. When the source has no row, or its stored date is NULL or the empty
  string, the read gives \<open>None\<close>; the first request then has the parameters of a
  request with no date and no \<^verbatim>\<open>from\<close> among them; and an incremental harvest of the
  source returns what a full harvest returns and indexes the same records.
\<close>

theorem C9_empty_watermark_reads_as_absent:
  assumes "harvest_state db repo = None \<or> harvest_state db repo = Some None \<or>
           harvest_state db repo = Some (Some [])"
  shows "get_last_harvest_date db repo = None \<and>
         initial_params self (get_last_harvest_date db repo) until_date
           = initial_params self None until_date \<and>
         map_of (initial_params self (get_last_harvest_date db repo) until_date) (py ''from'') = None \<and>
         (cfg_repo_id config = repo \<longrightarrow>
            fst (DspaceConnector_harvest_incremental HttpUrl clock config answers db)
              = fst (DspaceConnector_harvest_full HttpUrl clock config answers db) \<and>
            records (snd (DspaceConnector_harvest_incremental HttpUrl clock config answers db))
              = records (snd (DspaceConnector_harvest_full HttpUrl clock config answers db)) \<and>
            fst (OmekaConnector_harvest_incremental HttpUrl clock config answers db)
              = fst (OmekaConnector_harvest_full HttpUrl clock config answers db) \<and>
            records (snd (OmekaConnector_harvest_incremental HttpUrl clock config answers db))
              = records (snd (OmekaConnector_harvest_full HttpUrl clock config answers db)))"
proof -
  have g: "get_last_harvest_date db repo = None"
    using assms by (auto simp: get_last_harvest_date_def truthy_def)
  have p: "map_of (initial_params self None until_date) (py ''from'') = None"
    by (simp add: initial_params_def opt_param_def split: option.splits)
  have h: "fst (harvest_incremental m clock config answers db) = fst (harvest_full m clock config answers db) \<and>
           records (snd (harvest_incremental m clock config answers db))
             = records (snd (harvest_full m clock config answers db))"
    if "cfg_repo_id config = repo" for m
    using that g
    by (simp add: harvest_incremental_def harvest_full_def split: prod.splits sum.splits ending.splits)
  show ?thesis using g p h unfolding connector_defs by simp
qed


text \<open>C9 on the database whose watermark is the empty string.\<close>

theorem C9_witness:
  "harvest_state example_db_blank (py ''dspace_uclv'') = Some (Some []) \<and>
   get_last_harvest_date example_db_blank (py ''dspace_uclv'') = None \<and>
   map_of (initial_params (client_of example_config)
            (get_last_harvest_date example_db_blank (py ''dspace_uclv'')) None) (py ''from'') = None \<and>
   cfg_repo_id example_config = py ''dspace_uclv'' \<and>
   fst (DspaceConnector_harvest_full sample_HttpUrl example_clock example_config
     [\<lambda>q. Document page_one, \<lambda>q. StatusError 500] example_db_blank) = Returned 1 \<and>
   fst (DspaceConnector_harvest_incremental sample_HttpUrl example_clock example_config
     [\<lambda>q. Document page_one, \<lambda>q. StatusError 500] example_db_blank) = Returned 1"
proof -
  have h: "harvest_state example_db_blank (py ''dspace_uclv'') = Some (Some [])"
    by (simp add: example_db_blank_def)
  have c: "cfg_repo_id example_config = py ''dspace_uclv''"
    by (simp add: example_config_def)
  have r: "fst (DspaceConnector_harvest_incremental sample_HttpUrl example_clock example_config
     [\<lambda>q. Document page_one, \<lambda>q. StatusError 500] example_db_blank) = Returned 1"
    by (rule incremental_one)
  note T = C9_empty_watermark_reads_as_absent[OF disjI2, OF disjI2, OF h,
        where self = "client_of example_config" and until_date = None and config = example_config
        and HttpUrl = sample_HttpUrl and clock = example_clock
        and answers = "[\<lambda>q. Document page_one, \<lambda>q. StatusError 500]"]
  have g: "get_last_harvest_date example_db_blank (py ''dspace_uclv'') = None"
    using T by blast
  have p: "map_of (initial_params (client_of example_config)
            (get_last_harvest_date example_db_blank (py ''dspace_uclv'')) None) (py ''from'') = None"
    using T by blast
  have e: "fst (DspaceConnector_harvest_full sample_HttpUrl example_clock example_config
     [\<lambda>q. Document page_one, \<lambda>q. StatusError 500] example_db_blank) = Returned 1"
    using T c r by metis
  show ?thesis
    using h g p c r e by blast
qed

section \<open>The list columns of the store\<close>

lemma split_nonempty [simp]: "split s sep \<noteq> []"
  by (induction s) (auto split: list.splits)

lemma split_no_sep: "sep \<notin> set s \<Longrightarrow> split s sep = [s]"
  by (induction s) auto

lemma split_at_sep: "sep \<notin> set x \<Longrightarrow> split (x @ sep # s) sep = x # split s sep"
  by (induction x) auto

lemma split_pieces_no_sep: "p \<in> set (split s sep) \<Longrightarrow> sep \<notin> set p"
proof (induction s arbitrary: p)
  case Nil
  then show ?case by simp
next
  case (Cons c s)
  show ?case
  proof (cases "c = sep")
    case True
    then show ?thesis using Cons by auto
  next
    case False
    obtain q qs where q: "split s sep = q # qs" by (cases "split s sep") auto
    then have "p = c # q \<or> p \<in> set qs" using Cons.prems False by auto
    then show ?thesis using Cons.IH[of q] Cons.IH[of p] q False by auto
  qed
qed

lemma set_strip: "set (strip s) \<subseteq> set s"
proof -
  have "set (rstrip t) \<subseteq> set t" for t
    unfolding rstrip_def using set_dropWhileD[of _ isspace "rev t"] by auto
  moreover have "set (lstrip s) \<subseteq> set s"
    unfolding lstrip_def using set_dropWhileD[of _ isspace s] by auto
  ultimately show ?thesis unfolding strip_def by blast
qed

lemma strip_space_prefix: "\<forall>c\<in>set w. isspace c \<Longrightarrow> strip (w @ x) = strip x"
  by (simp add: strip_def lstrip_def dropWhile_append2)

lemma split_join_good:
  assumes "\<forall>a\<in>set xs. of_char CHR '';'' \<notin> set a \<and> a \<noteq> [] \<and> strip a = a"
    and "xs \<noteq> []" and "\<forall>c\<in>set w. isspace c" and "of_char CHR '';'' \<notin> set w"
  shows "map strip (filter (\<lambda>a. strip a \<noteq> [])
           (split (w @ join (py ''; '') xs) (of_char CHR '';''))) = xs"
  using assms
proof (induction xs arbitrary: w rule: induct_list012)
  case 1
  then show ?case by simp
next
  case (2 x)
  then have "of_char CHR '';'' \<notin> set (w @ x)" by simp
  then have "split (w @ x) (of_char CHR '';'') = [w @ x]" by (rule split_no_sep)
  moreover have "strip (w @ x) = x" using 2 by (simp add: strip_space_prefix)
  moreover have "x \<noteq> []" using 2 by simp
  ultimately show ?case by simp
next
  case (3 x y ys)
  have nx: "of_char CHR '';'' \<notin> set (w @ x)" using 3 by simp
  have j: "w @ join (py ''; '') (x # y # ys)
             = (w @ x) @ of_char CHR '';'' # ([32] @ join (py ''; '') (y # ys))"
    by simp
  have s: "split (w @ join (py ''; '') (x # y # ys)) (of_char CHR '';'')
             = (w @ x) # split ([32] @ join (py ''; '') (y # ys)) (of_char CHR '';'')"
    unfolding j by (rule split_at_sep[OF nx])
  have sx: "strip (w @ x) = x" "x \<noteq> []" using 3 by (simp_all add: strip_space_prefix)
  have IH: "map strip (filter (\<lambda>a. strip a \<noteq> [])
              (split ([32] @ join (py ''; '') (y # ys)) (of_char CHR '';''))) = y # ys"
    using 3 by (intro "3.IH"(2)) (simp_all add: isspace_def)
  show ?case unfolding s using sx IH by simp
qed

lemma split_column_join:
  assumes "list_all (\<lambda>a. of_char CHR '';'' \<notin> set a \<and> a \<noteq> [] \<and> strip a = a) xs"
  shows "split_column (Some (join (py ''; '') xs)) = xs"
proof (cases "xs = []")
  case True
  then show ?thesis by (simp add: split_column_def strip_def lstrip_def rstrip_def)
next
  case False
  have "\<forall>a\<in>set xs. of_char CHR '';'' \<notin> set a \<and> a \<noteq> [] \<and> strip a = a"
    using assms by (simp add: list_all_iff)
  then show ?thesis
    using split_join_good[OF _ False, of "[]"] by (simp add: split_column_def)
qed

lemma split_column_no_semicolon:
  "a \<in> set (split_column s) \<Longrightarrow> of_char CHR '';'' \<notin> set a"
  using split_pieces_no_sep set_strip by (fastforce simp: split_column_def)

lemma split_column_differs:
  "list_ex (\<lambda>a. of_char CHR '';'' \<in> set a) xs \<Longrightarrow> split_column s \<noteq> xs"
  using split_column_no_semicolon by (auto simp: list_ex_iff)

lemma stored_row:
  "records (index_record utcnow r db) (id' r) =
     Some \<lparr>col_id = Some (id' r),
            col_oai_identifier = Some (oai_identifier r),
            col_title = Some (title r),
            col_authors = Some (join (py ''; '') (authors r)),
            col_institution = Some (institution r),
            col_repository = Some (repository r),
            col_date_issued = date_issued r,
            col_type = type r,
            col_url_landing_page = (if truthy (url_landing_page r) then url_landing_page r else None),
            col_abstract = abstract r,
            col_keywords = Some (join (py ''; '') (keywords' r)),
            col_language = language r,
            col_collections = Some (join (py ''; '') (collections r)),
            col_date_indexed =
              Some (isoformat (case date_indexed r of None \<Rightarrow> utcnow | Some d \<Rightarrow> d))\<rparr>"
  by (simp add: index_record_def Let_def)

lemma row_to_record_lists:
  "row_to_record HttpUrl fromisoformat rw = Inr r' \<Longrightarrow>
     authors r' = split_column (col_authors rw) \<and>
     keywords' r' = split_column (col_keywords rw) \<and>
     collections r' = split_column (col_collections rw)"
  by (auto simp: row_to_record_def UnifiedScholarlyRecord_init_def
      split: option.splits if_splits)

lemma row_to_record_returns:
  assumes "col_id rw \<noteq> None" "col_oai_identifier rw \<noteq> None" "col_title rw \<noteq> None"
    "col_institution rw \<noteq> None" "col_repository rw \<noteq> None"
    and "\<forall>u. col_url_landing_page rw = Some u \<longrightarrow> HttpUrl u \<noteq> None"
    and "\<forall>s. col_date_indexed rw = Some s \<longrightarrow> s \<noteq> [] \<longrightarrow> fromisoformat s \<noteq> None"
  shows "\<exists>r'. row_to_record HttpUrl fromisoformat rw = Inr r'"
  using assms
  by (auto simp: row_to_record_def UnifiedScholarlyRecord_init_def
      split: option.splits if_splits)

text \<open>
  Claim C10, as amended. When every entry of the authors, keywords and collections of
  a record has no semicolon, is not empty and is its own stripped form (no whitespace
  at either end), and the landing page and the stored date are read back without
  error, then indexing the record and converting the stored row gives a record with
  the same three lists, in the same order. And whenever the stored row converts to a
  record, a list of which some entry has a semicolon does not come back as it was.
\<close>

theorem C10_list_columns_round_trip:
  "((list_all (\<lambda>a. of_char CHR '';'' \<notin> set a \<and> a \<noteq> [] \<and> strip a = a) (authors r) \<and>
     list_all (\<lambda>a. of_char CHR '';'' \<notin> set a \<and> a \<noteq> [] \<and> strip a = a) (keywords' r) \<and>
     list_all (\<lambda>a. of_char CHR '';'' \<notin> set a \<and> a \<noteq> [] \<and> strip a = a) (collections r) \<and>
     (case url_landing_page r of None \<Rightarrow> True | Some u \<Rightarrow> HttpUrl u \<noteq> None) \<and>
     fromisoformat (isoformat (case date_indexed r of None \<Rightarrow> utcnow | Some d \<Rightarrow> d)) \<noteq> None)
    \<longrightarrow>
      (\<exists>rw r'. records (index_record utcnow r db) (id' r) = Some rw \<and>
         row_to_record HttpUrl fromisoformat rw = Inr r' \<and>
         authors r' = authors r \<and> keywords' r' = keywords' r \<and> collections r' = collections r)) \<and>
   ((records (index_record utcnow r db) (id' r) = Some rw \<and>
     row_to_record HttpUrl fromisoformat rw = Inr r')
    \<longrightarrow>
      (list_ex (\<lambda>a. of_char CHR '';'' \<in> set a) (authors r) \<longrightarrow> authors r' \<noteq> authors r) \<and>
      (list_ex (\<lambda>a. of_char CHR '';'' \<in> set a) (keywords' r) \<longrightarrow> keywords' r' \<noteq> keywords' r) \<and>
      (list_ex (\<lambda>a. of_char CHR '';'' \<in> set a) (collections r)
         \<longrightarrow> collections r' \<noteq> collections r))"
proof (intro conjI impI)
  assume a: "list_all (\<lambda>a. of_char CHR '';'' \<notin> set a \<and> a \<noteq> [] \<and> strip a = a) (authors r) \<and>
     list_all (\<lambda>a. of_char CHR '';'' \<notin> set a \<and> a \<noteq> [] \<and> strip a = a) (keywords' r) \<and>
     list_all (\<lambda>a. of_char CHR '';'' \<notin> set a \<and> a \<noteq> [] \<and> strip a = a) (collections r) \<and>
     (case url_landing_page r of None \<Rightarrow> True | Some u \<Rightarrow> HttpUrl u \<noteq> None) \<and>
     fromisoformat (isoformat (case date_indexed r of None \<Rightarrow> utcnow | Some d \<Rightarrow> d)) \<noteq> None"
  obtain rw0 where rw0: "records (index_record utcnow r db) (id' r) = Some rw0"
    and cols: "col_authors rw0 = Some (join (py ''; '') (authors r))"
      "col_keywords rw0 = Some (join (py ''; '') (keywords' r))"
      "col_collections rw0 = Some (join (py ''; '') (collections r))"
    and req: "col_id rw0 \<noteq> None" "col_oai_identifier rw0 \<noteq> None" "col_title rw0 \<noteq> None"
      "col_institution rw0 \<noteq> None" "col_repository rw0 \<noteq> None"
    and url: "col_url_landing_page rw0 = (if truthy (url_landing_page r) then url_landing_page r else None)"
    and di: "col_date_indexed rw0 = Some (isoformat (case date_indexed r of None \<Rightarrow> utcnow | Some d \<Rightarrow> d))"
    using stored_row[of utcnow r db] by simp
  have u: "\<forall>u. col_url_landing_page rw0 = Some u \<longrightarrow> HttpUrl u \<noteq> None"
    using a url by (auto split: option.splits if_splits)
  have d: "\<forall>s. col_date_indexed rw0 = Some s \<longrightarrow> s \<noteq> [] \<longrightarrow> fromisoformat s \<noteq> None"
    using a di by auto
  obtain r0 where r0: "row_to_record HttpUrl fromisoformat rw0 = Inr r0"
    using row_to_record_returns[OF req u d] by blast
  have sa: "split_column (Some (join (py ''; '') (authors r))) = authors r"
    using a by (intro split_column_join) blast
  have sk: "split_column (Some (join (py ''; '') (keywords' r))) = keywords' r"
    using a by (intro split_column_join) blast
  have sc: "split_column (Some (join (py ''; '') (collections r))) = collections r"
    using a by (intro split_column_join) blast
  have "authors r0 = authors r \<and> keywords' r0 = keywords' r \<and> collections r0 = collections r"
    using row_to_record_lists[OF r0] unfolding cols sa sk sc .
  then show "\<exists>rw r'. records (index_record utcnow r db) (id' r) = Some rw \<and>
         row_to_record HttpUrl fromisoformat rw = Inr r' \<and>
         authors r' = authors r \<and> keywords' r' = keywords' r \<and> collections r' = collections r"
    using rw0 r0 by blast
next
  assume b: "records (index_record utcnow r db) (id' r) = Some rw \<and>
     row_to_record HttpUrl fromisoformat rw = Inr r'"
  note l = row_to_record_lists[OF conjunct2[OF b]]
  { assume "list_ex (\<lambda>a. of_char CHR '';'' \<in> set a) (authors r)"
    then show "authors r' \<noteq> authors r" using l split_column_differs by metis }
  { assume "list_ex (\<lambda>a. of_char CHR '';'' \<in> set a) (keywords' r)"
    then show "keywords' r' \<noteq> keywords' r" using l split_column_differs by metis }
  { assume "list_ex (\<lambda>a. of_char CHR '';'' \<in> set a) (collections r)"
    then show "collections r' \<noteq> collections r" using l split_column_differs by metis }
qed


lemmas store_defs = index_record_def row_to_record_def split_column_def
  UnifiedScholarlyRecord_init_def sample_HttpUrl_def example_fromisoformat_def example_record_def
  example_clock_def example_db_def truthy_def

text \<open>
  C10 as stated fails: the entry \<^verbatim>\<open>" a"\<close> has no semicolon and is not blank once
  stripped, and comes back as \<^verbatim>\<open>"a"\<close>.
\<close>

theorem C10_counterexample:
  "of_char CHR '';'' \<notin> set (py '' a'') \<and> strip (py '' a'') \<noteq> [] \<and>
   authors (example_record [py '' a'']) = [py '' a''] \<and>
   map_option (map_sum id authors \<circ> row_to_record sample_HttpUrl example_fromisoformat)
     (records (index_record (example_clock 0) (example_record [py '' a'']) example_db)
        (id' (example_record [py '' a''])))
   = Some (Inr [py ''a''])"
  by (simp add: store_defs str_defs)

text \<open>The amended C10 on an example record with two authors and two keywords.\<close>

theorem C10_witness:
  "list_all (\<lambda>a. of_char CHR '';'' \<notin> set a \<and> a \<noteq> [] \<and> strip a = a)
     (authors (example_record [py ''Ana'', py ''Luis Gil''])) \<and>
   list_all (\<lambda>a. of_char CHR '';'' \<notin> set a \<and> a \<noteq> [] \<and> strip a = a)
     (keywords' (example_record [py ''Ana'', py ''Luis Gil''])) \<and>
   list_all (\<lambda>a. of_char CHR '';'' \<notin> set a \<and> a \<noteq> [] \<and> strip a = a)
     (collections (example_record [py ''Ana'', py ''Luis Gil''])) \<and>
   (\<exists>rw r'. records (index_record (example_clock 0) (example_record [py ''Ana'', py ''Luis Gil''])
                example_db) (id' (example_record [py ''Ana'', py ''Luis Gil''])) = Some rw \<and>
      row_to_record sample_HttpUrl example_fromisoformat rw = Inr r' \<and>
      authors r' = [py ''Ana'', py ''Luis Gil''] \<and> keywords' r' = [py ''a'', py ''b c''] \<and>
      collections r' = [])"
proof -
  let ?r = "example_record [py ''Ana'', py ''Luis Gil'']"
  have a: "list_all (\<lambda>a. of_char CHR '';'' \<notin> set a \<and> a \<noteq> [] \<and> strip a = a) (authors ?r)"
    by (simp add: example_record_def str_defs)
  have k: "list_all (\<lambda>a. of_char CHR '';'' \<notin> set a \<and> a \<noteq> [] \<and> strip a = a) (keywords' ?r)"
    by (simp add: example_record_def str_defs)
  have c: "list_all (\<lambda>a. of_char CHR '';'' \<notin> set a \<and> a \<noteq> [] \<and> strip a = a) (collections ?r)"
    by (simp add: example_record_def)
  have u: "(case url_landing_page ?r of None \<Rightarrow> True | Some u \<Rightarrow> sample_HttpUrl u \<noteq> None)"
    by (simp add: example_record_def sample_HttpUrl_def startswith_def)
  have d: "example_fromisoformat
             (isoformat (case date_indexed ?r of None \<Rightarrow> example_clock 0 | Some d \<Rightarrow> d)) \<noteq> None"
    by (simp add: example_record_def example_fromisoformat_def example_clock_def)
  have v: "authors ?r = [py ''Ana'', py ''Luis Gil'']" "keywords' ?r = [py ''a'', py ''b c'']"
    "collections ?r = []"
    by (simp_all add: example_record_def)
  have "\<exists>rw r'. records (index_record (example_clock 0) ?r example_db) (id' ?r) = Some rw \<and>
      row_to_record sample_HttpUrl example_fromisoformat rw = Inr r' \<and>
      authors r' = authors ?r \<and> keywords' r' = keywords' ?r \<and> collections r' = collections ?r"
    using C10_list_columns_round_trip[where r = ?r and HttpUrl = sample_HttpUrl
        and fromisoformat = example_fromisoformat and utcnow = "example_clock 0" and db = example_db]
      a k c u d by blast
  then show ?thesis using a k c unfolding v by blast
qed

end
